(* ===== verification/Prelude.thy ===== *)
theory Prelude
  imports Complex_Main "HOL-Library.Product_Lexorder"
begin

text \<open>
  Shared vocabulary of the development: the Python exceptions the program can raise,
  Python's built-in \<open>round\<close> on floats (round half to even, unlike HOL's \<open>round\<close>,
  which rounds halves up), and generic facts about \<open>arg_min_list\<close>, the library's
  ``first minimal element'' of a list, which is the abstract specification of the
  optimiser's scan. The collection \<open>eval_simps\<close> gathers the definitions that a
  witness unfolds to evaluate the model on a concrete input.
\<close>

named_theorems eval_simps "definitions unfolded when the model is run on a concrete input"

section \<open>Python exceptions\<close>

text \<open>
  The exceptions that the modelled code raises or lets through. The message is the one
  CPython prints, so that two failures of the same class can be told apart.
\<close>

datatype hata =
    ValueError string
  | OverflowError string

type_synonym 'a sonuc = "hata + 'a"

section \<open>Python's \<open>round\<close>\<close>

text \<open>
  \<open>int(round(x))\<close> for a float \<open>x\<close>: the nearest integer, and at an exact half the
  even one (\<open>round(2.5) == 2\<close>, \<open>round(3.5) == 4\<close>). Floats are modelled as reals.
\<close>

definition py_round :: "real \<Rightarrow> int" where
  "py_round x =
     (let f = \<lfloor>x\<rfloor>; r = x - of_int f in
      if r < 1/2 then f
      else if 1/2 < r then f + 1
      else if even f then f else f + 1)"

declare py_round_def [eval_simps]

lemma py_round_cases:
  "py_round x = \<lfloor>x\<rfloor> \<or> py_round x = \<lfloor>x\<rfloor> + 1"
  by (auto simp: py_round_def Let_def)

lemma py_round_dist: "\<bar>of_int (py_round x) - x\<bar> \<le> 1/2"
proof -
  have f: "of_int \<lfloor>x\<rfloor> \<le> x" "x < of_int \<lfloor>x\<rfloor> + 1"
    by linarith+
  then show ?thesis
    by (auto simp: py_round_def Let_def)
qed

lemma py_round_of_int [simp]: "py_round (of_int n) = n"
  by (simp add: py_round_def)

lemma py_round_numeral [simp]: "py_round (numeral n) = numeral n"
  using py_round_of_int [of "numeral n"] by simp

lemma py_round_mono_int:
  assumes "x \<le> of_int n"
  shows "py_round x \<le> n"
proof -
  have "of_int (py_round x) \<le> x + 1/2"
    using py_round_dist [of x] by linarith
  then have "of_int (py_round x) < of_int n + (1::real)"
    using assms by linarith
  then show ?thesis by linarith
qed

lemma py_round_nonneg:
  assumes "0 \<le> x"
  shows "0 \<le> py_round x"
proof -
  have "x - 1/2 \<le> of_int (py_round x)"
    using py_round_dist [of x] by linarith
  then have "- 1 < (of_int (py_round x) :: real)"
    using assms by linarith
  then show ?thesis by linarith
qed

lemma py_round_half_even: "py_round (5/2) = 2" "py_round (7/2) = 4"
  by (simp_all add: py_round_def)

section \<open>First minimal element of a list\<close>

text \<open>
  \<open>arg_min_list f xs\<close> is the first element of \<open>xs\<close> at which \<open>f\<close> is minimal.
  Appending one element changes it only if the new element is strictly better: this is
  the step of a left-to-right scan with a strict comparison.
\<close>

lemma arg_min_list_snoc:
  "xs \<noteq> [] \<Longrightarrow>
   arg_min_list f (xs @ [x]) =
     (let m = arg_min_list f xs in if f x < f m then x else m)"
proof (induction f xs rule: arg_min_list.induct)
  case (1 f y)
  then show ?case by (cases "f y \<le> f x") (auto simp: Let_def)
next
  case (2 f y z zs)
  then show ?case by (auto simp: Let_def)
next
  case 3
  then show ?case by simp
qed

lemma arg_min_list_le:
  "x \<in> set xs \<Longrightarrow> f (arg_min_list f xs) \<le> f x"
  using f_arg_min_list_f [of xs f] by (cases "xs = []") auto

lemma arg_min_list_const: "arg_min_list (\<lambda>_. c) (x # xs) = x"
proof (induction xs arbitrary: x)
  case Nil
  then show ?case by simp
next
  case (Cons y ys)
  then show ?case by (simp add: Let_def)
qed

lemma arg_min_list_first:
  fixes xs :: "'a::linorder list"
  shows "sorted_wrt (<) xs \<Longrightarrow> x \<in> set xs \<Longrightarrow> x < arg_min_list f xs \<Longrightarrow>
   f (arg_min_list f xs) < f x"
proof (induction f xs rule: arg_min_list.induct)
  case (1 f y)
  then show ?case by auto
next
  case (2 f y z zs)
  let ?m = "arg_min_list f (z # zs)"
  have m_in: "?m \<in> set (z # zs)"
    by (rule arg_min_list_in) simp
  show ?case
  proof (cases "f y \<le> f ?m")
    case True
    with "2.prems" show ?thesis by auto
  next
    case False
    then have res: "arg_min_list f (y # z # zs) = ?m"
      by (simp add: Let_def)
    show ?thesis
    proof (cases "x = y")
      case True
      with False res show ?thesis by simp
    next
      case False
      with "2.prems" res have "x \<in> set (z # zs)" "x < ?m" "sorted_wrt (<) (z # zs)"
        by auto
      with "2.IH" res show ?thesis by simp
    qed
  qed
next
  case 3
  then show ?case by simp
qed


text \<open>The positions of a list that satisfy a predicate, split at the head.\<close>

lemma indeks_kumesi_Cons:
  "{i. i < length (x # xs) \<and> P ((x # xs) ! i)} = (if P x then {0} else {}) \<union> Suc ` {i. i < length xs \<and> P (xs ! i)}"
proof (rule set_eqI)
  fix i show "i \<in> {i. i < length (x # xs) \<and> P ((x # xs) ! i)} \<longleftrightarrow>
      i \<in> (if P x then {0} else {}) \<union> Suc ` {i. i < length xs \<and> P (xs ! i)}"
    by (cases i) auto
qed


text \<open>Mapping over a zip of lists of equal length.\<close>

lemma map_zip_snd: "length xs = length ys \<Longrightarrow> map (\<lambda>p. f (snd p)) (zip xs ys) = map f ys"
  by (induction xs ys rule: list_induct2) simp_all

lemma map_zip_fst: "length xs = length ys \<Longrightarrow> map (\<lambda>p. f (fst p)) (zip xs ys) = map f xs"
  by (induction xs ys rule: list_induct2) simp_all

end
