(* ===== verification/Calendar.thy ===== *)
theory Calendar
  imports Prelude
begin

text \<open>
  The calendar arithmetic the program relies on: the proleptic Gregorian calendar of
  Python's \<open>datetime\<close> (CPython's \<open>_ymd2ord\<close>, \<open>weekday\<close>, \<open>isocalendar\<close>,
  \<open>date + timedelta(days=1)\<close> and the comparison of dates), and the program's own
  holiday test \<open>resmi_tatil_mi\<close> (\<open>src/app.py\<close>, lines 43--45). A date is the
  triple of its fields; Python compares dates field by field, and so does the
  \<open>linorder\<close> instance below. The holiday calendar of the \<open>holidays\<close> package is
  a parameter: for each year, the list of its holidays.
\<close>

section \<open>Dates\<close>

datatype tarih = Tarih (yil: int) (ay: int) (gun: int)

instantiation tarih :: linorder
begin

definition less_eq_tarih :: "tarih \<Rightarrow> tarih \<Rightarrow> bool" where
  "less_eq_tarih a b \<longleftrightarrow> (yil a, ay a, gun a) \<le> (yil b, ay b, gun b)"

definition less_tarih :: "tarih \<Rightarrow> tarih \<Rightarrow> bool" where
  "less_tarih a b \<longleftrightarrow> (yil a, ay a, gun a) < (yil b, ay b, gun b)"

instance
proof
  fix a b c :: tarih
  show "a < b \<longleftrightarrow> a \<le> b \<and> \<not> b \<le> a"
    by (auto simp: less_eq_tarih_def less_tarih_def)
  show "a \<le> a"
    by (simp add: less_eq_tarih_def)
  show "a \<le> b \<Longrightarrow> b \<le> c \<Longrightarrow> a \<le> c"
    unfolding less_eq_tarih_def by (rule order_trans)
  show "a \<le> b \<Longrightarrow> b \<le> a \<Longrightarrow> a = b"
    by (cases a; cases b) (auto simp: less_eq_tarih_def)
  show "a \<le> b \<or> b \<le> a"
    unfolding less_eq_tarih_def by (rule linear)
qed

end

section \<open>CPython's calendar tables\<close>

definition MAXYEAR :: int where "MAXYEAR = 9999"
definition MAXORDINAL :: int where "MAXORDINAL = 3652059"

definition is_leap :: "int \<Rightarrow> bool" where
  "is_leap y \<longleftrightarrow> y mod 4 = 0 \<and> (y mod 100 \<noteq> 0 \<or> y mod 400 = 0)"

definition DAYS_IN_MONTH :: "int list" where
  "DAYS_IN_MONTH = [-1, 31, 28, 31, 30, 31, 30, 31, 31, 30, 31, 30, 31]"

definition DAYS_BEFORE_MONTH :: "int list" where
  "DAYS_BEFORE_MONTH = [-1, 0, 31, 59, 90, 120, 151, 181, 212, 243, 273, 304, 334]"

definition days_before_year :: "int \<Rightarrow> int" where
  "days_before_year year = (let y = year - 1 in y * 365 + y div 4 - y div 100 + y div 400)"

definition days_in_month :: "int \<Rightarrow> int \<Rightarrow> int" where
  "days_in_month year month =
     (if month = 2 \<and> is_leap year then 29 else DAYS_IN_MONTH ! nat month)"

definition days_before_month :: "int \<Rightarrow> int \<Rightarrow> int" where
  "days_before_month year month =
     DAYS_BEFORE_MONTH ! nat month + (if 2 < month \<and> is_leap year then 1 else 0)"

fun ymd2ord :: "tarih \<Rightarrow> int" where
  "ymd2ord (Tarih y m d) = days_before_year y + days_before_month y m + d"

text \<open>\<open>_check_date_fields\<close>: the dates a \<open>date\<close> or \<open>datetime\<close> object can hold.\<close>

fun gecerli :: "tarih \<Rightarrow> bool" where
  "gecerli (Tarih y m d) \<longleftrightarrow>
     1 \<le> y \<and> y \<le> MAXYEAR \<and> 1 \<le> m \<and> m \<le> 12 \<and> 1 \<le> d \<and> d \<le> days_in_month y m"

definition weekday :: "tarih \<Rightarrow> int" where
  "weekday t = (ymd2ord t + 6) mod 7"

declare MAXYEAR_def [eval_simps] MAXORDINAL_def [eval_simps] is_leap_def [eval_simps]
  DAYS_IN_MONTH_def [eval_simps] DAYS_BEFORE_MONTH_def [eval_simps]
  days_before_year_def [eval_simps] days_in_month_def [eval_simps]
  days_before_month_def [eval_simps] weekday_def [eval_simps]

section \<open>ISO calendar\<close>

definition isoweek1monday :: "int \<Rightarrow> int" where
  "isoweek1monday year =
     (let firstday = ymd2ord (Tarih year 1 1);
          firstweekday = (firstday + 6) mod 7;
          week1monday = firstday - firstweekday
      in if 3 < firstweekday then week1monday + 7 else week1monday)"

text \<open>\<open>isocalendar()\<close>: ISO year, ISO week (from 1) and ISO weekday (from 1).\<close>

definition isocalendar :: "tarih \<Rightarrow> int \<times> int \<times> int" where
  "isocalendar t =
     (let year = yil t; today = ymd2ord t; w1 = isoweek1monday year;
          week = (today - w1) div 7; day = (today - w1) mod 7
      in if week < 0 then
           (let w1' = isoweek1monday (year - 1)
            in (year - 1, (today - w1') div 7 + 1, (today - w1') mod 7 + 1))
         else if 52 \<le> week \<and> isoweek1monday (year + 1) \<le> today then (year + 1, 1, day + 1)
         else (year, week + 1, day + 1))"

definition iso_hafta :: "tarih \<Rightarrow> int" where
  "iso_hafta t = fst (snd (isocalendar t))"

declare isoweek1monday_def [eval_simps] isocalendar_def [eval_simps] iso_hafta_def [eval_simps]

section \<open>One day later\<close>

text \<open>
  \<open>t + timedelta(days=1)\<close>: CPython adds one to the ordinal, raises OverflowError
  past \<open>MAXORDINAL\<close> (9999-12-31) and converts back with \<open>fromordinal\<close>. The
  conversion is the calendar successor \<open>sonraki_gun\<close>; that it lands on the ordinal
  one higher is proved below (\<open>ymd2ord_sonraki_gun\<close>).
\<close>

fun sonraki_gun :: "tarih \<Rightarrow> tarih" where
  "sonraki_gun (Tarih y m d) =
     (if d < days_in_month y m then Tarih y m (d + 1)
      else if m < 12 then Tarih y (m + 1) 1
      else Tarih (y + 1) 1 1)"

definition gun_ekle :: "tarih \<Rightarrow> tarih sonuc" where
  "gun_ekle t =
     (let n = ymd2ord t + 1
      in if 0 < n \<and> n \<le> MAXORDINAL then Inr (sonraki_gun t)
         else Inl (OverflowError ''date value out of range''))"

declare gun_ekle_def [eval_simps]

section \<open>Holidays\<close>

text \<open>
  The holiday provider: \<open>H y\<close> lists the holidays of year \<open>y\<close>, as
  \<open>holidays.Turkey(years=y)\<close> holds them.
\<close>

type_synonym tatil_takvimi = "int \<Rightarrow> tarih list"

definition resmi_tatil_mi :: "tatil_takvimi \<Rightarrow> tarih \<Rightarrow> bool" where
  "resmi_tatil_mi H tarih \<longleftrightarrow> 5 \<le> weekday tarih \<or> tarih \<in> set (H (yil tarih))"

declare resmi_tatil_mi_def [eval_simps]

section \<open>Properties of the calendar\<close>

text \<open>
  The order on dates is Python's field-by-field comparison; on valid dates it agrees with
  the order of ordinals. The year and month tables are consistent: a year has 365 or 366
  days, a month 28 to 31, and the successor of a valid date is the date of the next
  ordinal. These facts carry the termination and completeness proofs of the forecast
  loop, which walks the calendar one day at a time.
\<close>

lemma tarih_le_iff [eval_simps]:
  "Tarih y m d \<le> Tarih y' m' d' \<longleftrightarrow> y < y' \<or> y = y' \<and> (m < m' \<or> m = m' \<and> d \<le> d')"
  by (auto simp: less_eq_tarih_def)

lemma tarih_less_iff [eval_simps]:
  "Tarih y m d < Tarih y' m' d' \<longleftrightarrow> y < y' \<or> y = y' \<and> (m < m' \<or> m = m' \<and> d < d')"
  by (auto simp: less_tarih_def)

lemma div_pred_step:
  fixes y k :: int
  assumes k: "0 < k"
  shows "y div k = (y - 1) div k + (if y mod k = 0 then 1 else 0)"
proof (cases "y mod k = 0")
  case True
  have "y - 1 = k * (y div k - 1) + (k - 1)"
    using True div_mult_mod_eq [of y k] by (simp add: algebra_simps)
  then have "(y - 1) div k = y div k - 1"
    by (rule int_div_pos_eq) (use k in simp_all)
  with True show ?thesis by simp
next
  case False
  have r: "0 \<le> y mod k" "y mod k < k" using k by simp_all
  have "y - 1 = k * (y div k) + (y mod k - 1)"
    using div_mult_mod_eq [of y k] by (simp add: algebra_simps)
  then have "(y - 1) div k = y div k"
    by (rule int_div_pos_eq) (use r False in simp_all)
  with False show ?thesis by simp
qed

lemma mod100_mod4: "(y::int) mod 100 = 0 \<Longrightarrow> y mod 4 = 0"
  using mod_mod_cancel [of 4 100 y] by simp

lemma mod400_mod100: "(y::int) mod 400 = 0 \<Longrightarrow> y mod 100 = 0"
  using mod_mod_cancel [of 100 400 y] by simp

lemma is_leap_ind:
  "(if is_leap y then 1 else 0) =
   (if y mod 4 = 0 then 1 else (0::int)) - (if y mod 100 = 0 then 1 else 0) + (if y mod 400 = 0 then 1 else 0)"
  using mod100_mod4 [of y] mod400_mod100 [of y]
  by (cases "y mod 400 = 0"; cases "y mod 100 = 0"; cases "y mod 4 = 0") (simp_all add: is_leap_def)

lemma days_before_year_succ:
  "days_before_year (y + 1) = days_before_year y + 365 + (if is_leap y then 1 else 0)"
proof -
  have s4: "y div 4 = (y - 1) div 4 + (if y mod 4 = 0 then 1 else 0)"
    using div_pred_step [of 4 y] by simp
  have s100: "y div 100 = (y - 1) div 100 + (if y mod 100 = 0 then 1 else 0)"
    using div_pred_step [of 100 y] by simp
  have s400: "y div 400 = (y - 1) div 400 + (if y mod 400 = 0 then 1 else 0)"
    using div_pred_step [of 400 y] by simp
  have "days_before_year (y + 1) = y * 365 + y div 4 - y div 100 + y div 400"
    by (simp add: days_before_year_def)
  also have "\<dots> = days_before_year y + 365 + ((if y mod 4 = 0 then 1 else 0)
      - (if y mod 100 = 0 then 1 else 0) + (if y mod 400 = 0 then 1 else 0))"
    unfolding days_before_year_def Let_def s4 s100 s400 by (simp add: algebra_simps)
  finally show ?thesis by (simp only: is_leap_ind)
qed

lemma month_cases:
  "1 \<le> m \<Longrightarrow> m \<le> (12::int) \<Longrightarrow>
   m = 1 \<or> m = 2 \<or> m = 3 \<or> m = 4 \<or> m = 5 \<or> m = 6 \<or> m = 7 \<or> m = 8 \<or> m = 9 \<or> m = 10 \<or> m = 11 \<or> m = 12"
  by arith

lemma days_in_month_bounds:
  assumes "1 \<le> m" "m \<le> 12"
  shows "28 \<le> days_in_month y m \<and> days_in_month y m \<le> 31"
  using month_cases [OF assms] by (elim disjE) (simp_all add: eval_simps)

lemma days_before_month_succ:
  assumes "1 \<le> m" "m < 12"
  shows "days_before_month y (m + 1) = days_before_month y m + days_in_month y m"
  using month_cases [OF assms(1) order_less_imp_le [OF assms(2)]] assms(2)
  by (elim disjE) (simp_all add: eval_simps)

lemma days_in_month_pos:
  "1 \<le> m \<Longrightarrow> m \<le> 12 \<Longrightarrow> 1 \<le> days_in_month y m"
  using days_in_month_bounds [of m y] by simp

lemma days_in_month_dec: "days_in_month y 12 = 31"
  by (simp add: eval_simps)

lemma days_before_month_jan: "days_before_month y 1 = 0"
  by (simp add: eval_simps)

lemma days_before_month_last:
  "days_before_month y 12 + days_in_month y 12 = 365 + (if is_leap y then 1 else 0)"
  by (simp add: eval_simps)

lemma days_before_month_nonneg:
  assumes "1 \<le> m" "m \<le> 12"
  shows "0 \<le> days_before_month y m"
  using month_cases [OF assms] by (elim disjE) (simp_all add: eval_simps)

lemma days_before_month_mono:
  assumes "1 \<le> m" "m < m'" "m' \<le> 12"
  shows "days_before_month y m + days_in_month y m \<le> days_before_month y m'"
  using month_cases [OF assms(1) order_trans [OF order_less_imp_le [OF assms(2)] assms(3)]]
    month_cases [OF order_trans [OF assms(1) order_less_imp_le [OF assms(2)]] assms(3)] assms(2)
  by (elim disjE) (simp_all add: eval_simps)

lemma ymd2ord_sonraki_gun:
  assumes v: "gecerli t"
  shows "ymd2ord (sonraki_gun t) = ymd2ord t + 1"
proof (cases t)
  case (Tarih y m d)
  show ?thesis
  proof (cases "d < days_in_month y m")
    case True
    with Tarih show ?thesis by simp
  next
    case False
    with v Tarih have d: "d = days_in_month y m" by simp
    show ?thesis
    proof (cases "m < 12")
      case True
      with v Tarih d show ?thesis by (simp add: days_before_month_succ)
    next
      case False
      with v Tarih have "m = 12" by simp
      with Tarih d False show ?thesis
        using days_before_month_last [of y] by (simp add: days_before_year_succ days_before_month_jan)
    qed
  qed
qed

lemma gecerli_sonraki_gun:
  "gecerli t \<Longrightarrow> yil (sonraki_gun t) \<le> MAXYEAR \<Longrightarrow> gecerli (sonraki_gun t)"
  by (cases t) (auto simp: days_in_month_pos)

lemma sonraki_gun_greater: "t < sonraki_gun t"
  by (cases t) (simp add: tarih_less_iff)

lemma sonraki_gun_least:
  "gecerli a \<Longrightarrow> gecerli b \<Longrightarrow> a < b \<Longrightarrow> sonraki_gun a \<le> b"
  by (cases a; cases b) (auto simp: tarih_less_iff tarih_le_iff days_in_month_bounds)

lemma ymd2ord_year_bounds:
  assumes v: "gecerli (Tarih y m d)"
  shows "days_before_year y < ymd2ord (Tarih y m d) \<and> ymd2ord (Tarih y m d) \<le> days_before_year (y + 1)"
proof -
  have "days_before_month y m + days_in_month y m \<le> days_before_month y 12 + days_in_month y 12"
  proof (cases "m = 12")
    case False
    with v have "days_before_month y m + days_in_month y m \<le> days_before_month y 12"
      by (intro days_before_month_mono) auto
    then show ?thesis
      using days_in_month_bounds [of 12 y] by simp
  qed simp
  moreover have "0 \<le> days_before_month y m"
    using v by (intro days_before_month_nonneg) auto
  ultimately show ?thesis
    using v days_before_month_last [of y] by (simp add: days_before_year_succ)
qed

lemma days_before_year_mono:
  "y < y' \<Longrightarrow> days_before_year (y + 1) \<le> days_before_year y'"
proof (induction y' rule: int_gr_induct)
  case base
  then show ?case by simp
next
  case (step k)
  then show ?case by (simp add: days_before_year_succ)
qed

lemma ymd2ord_strict_mono:
  assumes va: "gecerli a" and vb: "gecerli b" and lt: "a < b"
  shows "ymd2ord a < ymd2ord b"
proof (cases a; cases b)
  fix y m d y' m' d'
  assume a: "a = Tarih y m d" and b: "b = Tarih y' m' d'"
  consider (y) "y < y'" | (m) "y = y'" "m < m'" | (d) "y = y'" "m = m'" "d < d'"
    using lt a b by (auto simp: tarih_less_iff)
  then show ?thesis
  proof cases
    case y
    then show ?thesis
      using ymd2ord_year_bounds [of y m d] ymd2ord_year_bounds [of y' m' d']
        days_before_year_mono [of y y'] va vb a b by simp
  next
    case m
    then have "days_before_month y m + days_in_month y m \<le> days_before_month y m'"
      using va vb a b by (intro days_before_month_mono) auto
    with m va vb a b show ?thesis by simp
  next
    case d
    then show ?thesis using a b by simp
  qed
qed

lemma days_before_year_pos: "1 \<le> y \<Longrightarrow> 0 \<le> days_before_year y"
  using days_before_year_mono [of 0 y] by (cases "y = 1") (simp_all add: days_before_year_def)

lemma ymd2ord_pos: "gecerli t \<Longrightarrow> 0 < ymd2ord t"
  using ymd2ord_year_bounds [of "yil t" "ay t" "gun t"] days_before_year_pos [of "yil t"]
  by (cases t) simp

lemma ymd2ord_max: "ymd2ord (Tarih 9999 12 31) = MAXORDINAL"
  by (simp add: eval_simps)

lemma gecerli_le_max: "gecerli t \<Longrightarrow> t \<le> Tarih 9999 12 31"
  by (cases t) (auto simp: tarih_le_iff eval_simps days_in_month_bounds)

lemma gecerli_sonraki_gun_max:
  "gecerli t \<Longrightarrow> t \<noteq> Tarih 9999 12 31 \<Longrightarrow> gecerli (sonraki_gun t)"
  by (cases t) (auto simp: days_in_month_pos days_in_month_dec MAXYEAR_def)

lemma gun_ekle_gecerli:
  assumes v: "gecerli t"
  shows "gun_ekle t =
           (if t = Tarih 9999 12 31 then Inl (OverflowError ''date value out of range'')
            else Inr (sonraki_gun t))"
proof (cases "t = Tarih 9999 12 31")
  case True
  then show ?thesis by (simp add: eval_simps)
next
  case False
  with v gecerli_le_max [OF v] have "t < Tarih 9999 12 31" by simp
  moreover have "gecerli (Tarih 9999 12 31)"
    by (simp add: eval_simps)
  ultimately have "ymd2ord t < MAXORDINAL"
    using ymd2ord_strict_mono [OF v] ymd2ord_max by metis
  with ymd2ord_pos [OF v] False show ?thesis
    by (simp add: gun_ekle_def Let_def)
qed

lemma gun_ekle_Inr: "gun_ekle t = Inr n \<Longrightarrow> n = sonraki_gun t"
  by (simp add: gun_ekle_def Let_def split: if_splits)


subsection \<open>ISO weeks\<close>

text \<open>The Monday of ISO week 1 lies within three days of 1 January, and the ISO week
  number of a valid date lies in 1--53.\<close>

lemma ymd2ord_jan1: "ymd2ord (Tarih y 1 1) = days_before_year y + 1"
  by (simp add: days_before_month_jan)

lemma isoweek1monday_bounds:
  "ymd2ord (Tarih y 1 1) - 3 \<le> isoweek1monday y \<and> isoweek1monday y \<le> ymd2ord (Tarih y 1 1) + 3 \<and>
   isoweek1monday y mod 7 = 1"
proof -
  define f where "f = ymd2ord (Tarih y 1 1)"
  obtain q where q: "f + 6 = 7 * q + (f + 6) mod 7"
    using div_mult_mod_eq [of "f + 6" 7] by (metis mult.commute)
  have r: "0 \<le> (f + 6) mod 7" "(f + 6) mod 7 < 7" by simp_all
  show ?thesis
    unfolding isoweek1monday_def Let_def f_def [symmetric]
    using q r by (cases "3 < (f + 6) mod 7") (simp_all, presburger+)
qed

lemma iso_hafta_bounds:
  assumes v: "gecerli t"
  shows "1 \<le> iso_hafta t \<and> iso_hafta t \<le> 53"
proof (cases t)
  case (Tarih y m d)
  define j where "j z = ymd2ord (Tarih z 1 1)" for z
  have step: "j z + 365 \<le> j (z + 1) \<and> j (z + 1) \<le> j z + 366" for z
    by (simp add: j_def ymd2ord_jan1 days_before_year_succ del: ymd2ord.simps)
  have w: "j z - 3 \<le> isoweek1monday z \<and> isoweek1monday z \<le> j z + 3 \<and> isoweek1monday z mod 7 = 1" for z
    unfolding j_def by (rule isoweek1monday_bounds)
  have today: "j y \<le> ymd2ord t \<and> ymd2ord t < j (y + 1)"
    using ymd2ord_year_bounds [of y m d] v Tarih by (simp add: j_def ymd2ord_jan1 del: ymd2ord.simps)
  have gap: "isoweek1monday (z + 1) - isoweek1monday z \<le> 371" for z
  proof -
    have "isoweek1monday (z + 1) - isoweek1monday z \<le> 372"
      using w [of z] w [of "z + 1"] step [of z] by linarith
    then show ?thesis using w [of z] w [of "z + 1"] by presburger
  qed
  have gap1: "isoweek1monday y - isoweek1monday (y - 1) \<le> 371"
    using gap [of "y - 1"] by simp
  have step1: "j (y - 1) + 365 \<le> j y" using step [of "y - 1"] by simp
  have div_le: "0 \<le> x \<Longrightarrow> x < 371 \<Longrightarrow> 0 \<le> x div 7 \<and> x div 7 \<le> 52" for x :: int
    by auto
  define T where "T = ymd2ord t"
  define W where "W z = isoweek1monday z" for z
  have iso: "iso_hafta t = (if (T - W y) div 7 < 0 then (T - W (y - 1)) div 7 + 1
      else if 52 \<le> (T - W y) div 7 \<and> W (y + 1) \<le> T then 1 else (T - W y) div 7 + 1)"
    unfolding T_def W_def by (simp add: iso_hafta_def isocalendar_def Let_def Tarih del: ymd2ord.simps)
  have tb: "j y \<le> T \<and> T < j (y + 1)" using today T_def by simp
  show ?thesis
  proof (cases "(T - W y) div 7 < 0")
    case True
    then have "T < W y" by (simp add: div_neg_pos_less0 not_le [symmetric] pos_imp_zdiv_nonneg_iff)
    moreover have "0 \<le> T - W (y - 1)" using tb step1 w [of "y - 1"] unfolding W_def by linarith
    ultimately have "0 \<le> T - W (y - 1)" "T - W (y - 1) < 371" using gap1 unfolding W_def by linarith+
    then show ?thesis using iso True div_le by simp
  next
    case False
    show ?thesis
    proof (cases "52 \<le> (T - W y) div 7 \<and> W (y + 1) \<le> T")
      case True
      then show ?thesis using iso False by simp
    next
      case nx: False
      have "(T - W y) div 7 \<le> 52"
      proof (rule ccontr)
        assume "\<not> (T - W y) div 7 \<le> 52"
        then have "T < W (y + 1)" and "53 \<le> (T - W y) div 7" using nx by auto
        then have "371 \<le> T - W y" by linarith
        then show False using gap [of y] \<open>T < W (y + 1)\<close> unfolding W_def by linarith
      qed
      then show ?thesis using iso False nx by simp
    qed
  qed
qed


lemma weekday_bounds: "0 \<le> weekday t \<and> weekday t \<le> 6"
  by (simp add: weekday_def)


text \<open>On valid dates the order of dates is the order of their ordinals.\<close>

lemma ymd2ord_le_iff: "gecerli a \<Longrightarrow> gecerli b \<Longrightarrow> a \<le> b \<longleftrightarrow> ymd2ord a \<le> ymd2ord b"
  using ymd2ord_strict_mono [of a b] ymd2ord_strict_mono [of b a]
  by (metis less_le_not_le nle_le order_less_imp_le)

lemma ymd2ord_inj: "gecerli a \<Longrightarrow> gecerli b \<Longrightarrow> ymd2ord a = ymd2ord b \<Longrightarrow> a = b"
  using ymd2ord_le_iff [of a b] ymd2ord_le_iff [of b a] by simp

end
