(* ===== verification/Strptime.thy ===== *)
theory Strptime
  imports Calendar
begin

text \<open>
  Parsing and printing of dates as the program does it: \<open>datetime.strptime(s, "%Y-%m-%d")\<close>
  for the requested range (\<open>src/app.py\<close>, lines 48--49), \<open>pd.to_datetime(...,
  format="%d%m%Y")\<close> for the dataset (line 16, modelled in \<open>Dataset\<close>), and
  \<open>strftime("%Y-%m-%d")\<close> and \<open>strftime("%A")\<close> for the forecast records
  (lines 88--89). CPython's \<open>_strptime\<close> compiles the format into a regular expression
  (class \<open>TimeRE\<close>) with one alternation per directive, takes the first match that the
  backtracking matcher finds (\<open>re.match\<close>, not anchored at the end), raises
  \<open>ValueError\<close> when nothing matches or when characters are left over, converts each group
  with \<open>int()\<close> and finally builds the date, which raises \<open>ValueError\<close> for an invalid
  date. The matcher below enumerates all matches in backtracking order; the first one is
  the one Python takes. Digits are the ASCII digits: the pattern \<open>\d\<close> of a \<open>str\<close>
  regular expression also matches the other Unicode decimal digits (Arabic-Indic,
  Devanagari, fullwidth, ...), which \<open>int()\<close> converts too; inputs holding such digits
  are outside this model, so its theorems speak of ASCII inputs only.
\<close>

section \<open>The regular expressions of \<open>TimeRE\<close>\<close>

datatype sinif = Kar char | Aralik char char

fun sinif_uyar :: "sinif \<Rightarrow> char \<Rightarrow> bool" where
  "sinif_uyar (Kar c) x \<longleftrightarrow> x = c"
| "sinif_uyar (Aralik a b) x \<longleftrightarrow> (of_char a :: nat) \<le> of_char x \<and> (of_char x :: nat) \<le> of_char b"

type_synonym desen = "sinif list"

fun desen_eslestir :: "desen \<Rightarrow> string \<Rightarrow> (string \<times> string) option" where
  "desen_eslestir [] s = Some ([], s)"
| "desen_eslestir (c # cs) [] = None"
| "desen_eslestir (c # cs) (x # xs) =
     (if sinif_uyar c x then map_option (\<lambda>(w, r). (x # w, r)) (desen_eslestir cs xs) else None)"

datatype yonerge = Yuzde_Y | Yuzde_m | Yuzde_d | Harf char

definition rakam :: sinif where
  "rakam = Aralik CHR ''0'' CHR ''9''"

definition pozitif_rakam :: sinif where
  "pozitif_rakam = Aralik CHR ''1'' CHR ''9''"

text \<open>
  \<open>'d': r"(?P<d>3[01]|[12]\d|0[1-9]|[1-9]| [1-9])"\<close>,
  \<open>'m': r"(?P<m>1[0-2]|0[1-9]|[1-9])"\<close>, \<open>'Y': r"(?P<Y>\d\d\d\d)"\<close>.
\<close>

fun alternatifler :: "yonerge \<Rightarrow> desen list" where
  "alternatifler Yuzde_d =
     [[Kar CHR ''3'', Aralik CHR ''0'' CHR ''1''], [Aralik CHR ''1'' CHR ''2'', rakam],
      [Kar CHR ''0'', pozitif_rakam], [pozitif_rakam], [Kar CHR '' '', pozitif_rakam]]"
| "alternatifler Yuzde_m =
     [[Kar CHR ''1'', Aralik CHR ''0'' CHR ''2''], [Kar CHR ''0'', pozitif_rakam], [pozitif_rakam]]"
| "alternatifler Yuzde_Y = [[rakam, rakam, rakam, rakam]]"
| "alternatifler (Harf c) = [[Kar c]]"

text \<open>All matches of a format at the start of a string, in backtracking order.\<close>

fun eslesmeler :: "yonerge list \<Rightarrow> string \<Rightarrow> ((yonerge \<times> string) list \<times> string) list" where
  "eslesmeler [] s = [([], s)]"
| "eslesmeler (y # ys) s =
     concat (map (\<lambda>p. case desen_eslestir p s of
                         None \<Rightarrow> []
                       | Some (w, r) \<Rightarrow> map (\<lambda>(gs, r'). ((y, w) # gs, r')) (eslesmeler ys r))
                 (alternatifler y))"

section \<open>Conversion of the groups\<close>

text \<open>\<open>int()\<close> of a matched group: decimal digits, a leading blank ignored.\<close>

definition sayi_degeri :: "string \<Rightarrow> int" where
  "sayi_degeri w =
     foldl (\<lambda>n c. if c = CHR '' '' then n else 10 * n + (int (of_char c) - 48)) 0 w"

definition grup :: "(yonerge \<times> string) list \<Rightarrow> yonerge \<Rightarrow> int \<Rightarrow> int" where
  "grup gs y varsayilan = (case map_of gs y of Some w \<Rightarrow> sayi_degeri w | None \<Rightarrow> varsayilan)"

definition strptime :: "yonerge list \<Rightarrow> string \<Rightarrow> tarih sonuc" where
  "strptime fmt s =
     (case eslesmeler fmt s of
        [] \<Rightarrow> Inl (ValueError ''time data does not match format'')
      | (gs, r) # _ \<Rightarrow>
          if r \<noteq> [] then Inl (ValueError ''unconverted data remains'')
          else (let t = Tarih (grup gs Yuzde_Y 1900) (grup gs Yuzde_m 1) (grup gs Yuzde_d 1)
                in if gecerli t then Inr t else Inl (ValueError ''day is out of range for month'')))"

definition fmt_Ymd :: "yonerge list" where
  "fmt_Ymd = [Yuzde_Y, Harf CHR ''-'', Yuzde_m, Harf CHR ''-'', Yuzde_d]"

definition fmt_dmY :: "yonerge list" where
  "fmt_dmY = [Yuzde_d, Yuzde_m, Yuzde_Y]"

section \<open>Printing\<close>

text \<open>Decimal representation of a natural number, as \<open>str()\<close> prints it.\<close>

definition rakamlar :: string where
  "rakamlar = ''0123456789''"

fun ondalik :: "nat \<Rightarrow> string" where
  "ondalik n =
     (if n < 10 then [rakamlar ! n] else ondalik (n div 10) @ [rakamlar ! (n mod 10)])"

declare ondalik.simps [simp del]

text \<open>\<open>str(n)\<close> of a Python integer (what \<open>astype(str)\<close> does to an integer column).\<close>

definition py_str :: "int \<Rightarrow> string" where
  "py_str n = (if n < 0 then CHR ''-'' # ondalik (nat (- n)) else ondalik (nat n))"

definition sifir_doldur :: "nat \<Rightarrow> int \<Rightarrow> string" where
  "sifir_doldur w k = (let s = ondalik (nat k) in replicate (w - length s) CHR ''0'' @ s)"

text \<open>\<open>strftime("%Y-%m-%d")\<close>, with the year padded to four digits.\<close>

fun tarih_yaz :: "tarih \<Rightarrow> string" where
  "tarih_yaz (Tarih y m d) = sifir_doldur 4 y @ ''-'' @ sifir_doldur 2 m @ ''-'' @ sifir_doldur 2 d"

text \<open>\<open>strftime("%A")\<close> in the C locale.\<close>

definition gun_adlari :: "string list" where
  "gun_adlari = [''Monday'', ''Tuesday'', ''Wednesday'', ''Thursday'', ''Friday'', ''Saturday'', ''Sunday'']"

definition gun_adi :: "tarih \<Rightarrow> string" where
  "gun_adi t = gun_adlari ! nat (weekday t)"

declare rakam_def [eval_simps] pozitif_rakam_def [eval_simps] sayi_degeri_def [eval_simps]
  grup_def [eval_simps] strptime_def [eval_simps] fmt_Ymd_def [eval_simps] fmt_dmY_def [eval_simps]
  py_str_def [eval_simps] sifir_doldur_def [eval_simps] gun_adlari_def [eval_simps]
  gun_adi_def [eval_simps] ondalik.simps [eval_simps] rakamlar_def [eval_simps]

section \<open>Properties of parsing\<close>

lemma strptime_gecerli: "strptime fmt s = Inr t \<Longrightarrow> gecerli t"
  by (auto simp: strptime_def Let_def split: list.splits prod.splits if_splits)


section \<open>Round trips\<close>

text \<open>
  Digit strings: \<open>ondalik\<close> prints digits only, at most \<open>w\<close> of them below \<open>10^w\<close>,
  and \<open>int()\<close> reads back the printed value, leading zeros included. On a padded field
  each directive's regular expression takes the whole field as its first alternative to
  match, so the first match of the format is the intended split, and \<open>strptime\<close>
  inverts \<open>strftime\<close>.
\<close>

lemma basamak_cases:
  "k < (10::nat) \<Longrightarrow> k = 0 \<or> k = 1 \<or> k = 2 \<or> k = 3 \<or> k = 4 \<or> k = 5 \<or> k = 6 \<or> k = 7 \<or> k = 8 \<or> k = 9"
  by arith

lemma rakamlar_nth: "k < 10 \<Longrightarrow> rakamlar ! k \<in> set rakamlar \<and> of_char (rakamlar ! k) = (48 + k :: nat)"
  by (drule basamak_cases) (elim disjE; simp add: rakamlar_def)

lemma rakamlar_bosluk: "c \<in> set rakamlar \<Longrightarrow> c \<noteq> CHR '' ''"
  by (auto simp: rakamlar_def)

lemma ondalik_rakam: "set (ondalik n) \<subseteq> set rakamlar"
proof (induction n rule: ondalik.induct)
  case (1 n)
  then show ?case
    by (subst ondalik.simps) (auto simp: rakamlar_nth)
qed

lemma ondalik_uzunluk: "n < 10 ^ w \<Longrightarrow> 0 < w \<Longrightarrow> length (ondalik n) \<le> w"
proof (induction n arbitrary: w rule: ondalik.induct)
  case (1 n)
  show ?case
  proof (cases "n < 10")
    case True
    then show ?thesis using "1.prems" by (subst ondalik.simps) simp
  next
    case False
    then obtain v where v: "w = Suc v" "0 < v" using "1.prems"
      by (cases w; cases "w - 1") (auto simp: power_Suc)
    have "n div 10 < 10 ^ v" using "1.prems" v by (simp add: less_mult_imp_div_less mult.commute)
    then have "length (ondalik (n div 10)) \<le> v" using "1.IH" False v by simp
    then show ?thesis using False v by (subst ondalik.simps) simp
  qed
qed

lemma sayi_degeri_snoc:
  "c \<noteq> CHR '' '' \<Longrightarrow> sayi_degeri (w @ [c]) = 10 * sayi_degeri w + (int (of_char c) - 48)"
  by (simp add: sayi_degeri_def)

lemma sayi_degeri_ondalik: "sayi_degeri (ondalik n) = int n"
proof (induction n rule: ondalik.induct)
  case (1 n)
  show ?case
  proof (cases "n < 10")
    case True
    then have "rakamlar ! n \<noteq> CHR '' ''" using rakamlar_nth [of n] rakamlar_bosluk by blast
    then show ?thesis using True rakamlar_nth [of n] by (subst ondalik.simps) (simp add: sayi_degeri_def)
  next
    case False
    have m: "n mod 10 < 10" by simp
    have "sayi_degeri (ondalik (n div 10) @ [rakamlar ! (n mod 10)]) = int n"
      using "1.IH" False rakamlar_nth [OF m] rakamlar_bosluk [of "rakamlar ! (n mod 10)"]
      by (simp add: sayi_degeri_snoc of_nat_mod of_nat_div)
    then show ?thesis using False by (subst ondalik.simps) simp
  qed
qed

lemma sayi_degeri_sifirlar: "sayi_degeri (replicate k CHR ''0'' @ s) = sayi_degeri s"
  by (induction k) (simp_all add: sayi_degeri_def)

lemma sifir_doldur_degeri: "0 \<le> k \<Longrightarrow> sayi_degeri (sifir_doldur w k) = k"
  by (simp add: sifir_doldur_def Let_def sayi_degeri_sifirlar sayi_degeri_ondalik)

lemma sifir_doldur_rakam: "set (sifir_doldur w k) \<subseteq> set rakamlar"
  using ondalik_rakam [of "nat k"] by (auto simp: sifir_doldur_def Let_def rakamlar_def)

lemma sifir_doldur_uzunluk: "0 \<le> k \<Longrightarrow> k < 10 ^ w \<Longrightarrow> 0 < w \<Longrightarrow> length (sifir_doldur w k) = w"
proof -
  assume "0 \<le> k" "k < 10 ^ w" "0 < w"
  then have "nat k < 10 ^ w" by (simp add: nat_less_iff)
  then show ?thesis using ondalik_uzunluk \<open>0 < w\<close> by (simp add: sifir_doldur_def Let_def)
qed

lemma rakam_uyar: "c \<in> set rakamlar \<Longrightarrow> sinif_uyar rakam c"
  by (auto simp: rakamlar_def rakam_def)

lemma desen_rakamlar:
  "length w = n \<Longrightarrow> set w \<subseteq> set rakamlar \<Longrightarrow> desen_eslestir (replicate n rakam) (w @ xs) = Some (w, xs)"
  by (induction w arbitrary: n) (auto simp: rakam_uyar)

lemma eslesmeler_Y:
  assumes "length w = 4" "set w \<subseteq> set rakamlar"
  shows "eslesmeler (Yuzde_Y # fs) (w @ xs) = map (\<lambda>(gs, r). ((Yuzde_Y, w) # gs, r)) (eslesmeler fs xs)"
proof -
  have "alternatifler Yuzde_Y = [replicate 4 rakam]" by (simp add: numeral_eq_Suc)
  then show ?thesis using desen_rakamlar [OF assms] by simp
qed

lemma eslesmeler_Harf:
  "eslesmeler (Harf c # fs) (c # xs) = map (\<lambda>(gs, r). ((Harf c, [c]) # gs, r)) (eslesmeler fs xs)"
  by simp

lemma eslesmeler_m:
  assumes "1 \<le> m" "m \<le> 12"
  shows "\<exists>rest. eslesmeler (Yuzde_m # fs) (sifir_doldur 2 m @ xs) =
           map (\<lambda>(gs, r). ((Yuzde_m, sifir_doldur 2 m) # gs, r)) (eslesmeler fs xs) @ rest"
  using month_cases [OF assms] by (elim disjE) (simp_all add: eval_simps)

lemma gun_cases:
  "1 \<le> d \<Longrightarrow> d \<le> (31::int) \<Longrightarrow>
   d = 1 \<or> d = 2 \<or> d = 3 \<or> d = 4 \<or> d = 5 \<or> d = 6 \<or> d = 7 \<or> d = 8 \<or> d = 9 \<or> d = 10 \<or>
   d = 11 \<or> d = 12 \<or> d = 13 \<or> d = 14 \<or> d = 15 \<or> d = 16 \<or> d = 17 \<or> d = 18 \<or> d = 19 \<or> d = 20 \<or>
   d = 21 \<or> d = 22 \<or> d = 23 \<or> d = 24 \<or> d = 25 \<or> d = 26 \<or> d = 27 \<or> d = 28 \<or> d = 29 \<or> d = 30 \<or>
   d = 31"
  by arith

lemma eslesmeler_d:
  assumes "1 \<le> d" "d \<le> 31"
  shows "\<exists>rest. eslesmeler (Yuzde_d # fs) (sifir_doldur 2 d @ xs) =
           map (\<lambda>(gs, r). ((Yuzde_d, sifir_doldur 2 d) # gs, r)) (eslesmeler fs xs) @ rest"
  using gun_cases [OF assms] by (elim disjE) (simp_all add: eval_simps)

lemma gecerli_alanlar:
  "gecerli (Tarih y m d) \<Longrightarrow> 0 \<le> y \<and> y < 10 ^ 4 \<and> 1 \<le> m \<and> m \<le> 12 \<and> 1 \<le> d \<and> d \<le> 31"
  using days_in_month_bounds [of m y] by (auto simp: MAXYEAR_def)

lemma eslesmeler_Ymd:
  assumes v: "gecerli (Tarih y m d)"
  shows "\<exists>rest. eslesmeler fmt_Ymd (tarih_yaz (Tarih y m d)) =
     ([(Yuzde_Y, sifir_doldur 4 y), (Harf CHR ''-'', ''-''), (Yuzde_m, sifir_doldur 2 m),
       (Harf CHR ''-'', ''-''), (Yuzde_d, sifir_doldur 2 d)], []) # rest"
proof -
  note b = gecerli_alanlar [OF v]
  obtain rd where rd: "eslesmeler [Yuzde_d] (sifir_doldur 2 d) =
      map (\<lambda>(gs, r). ((Yuzde_d, sifir_doldur 2 d) # gs, r)) (eslesmeler [] []) @ rd"
    using eslesmeler_d [of d "[]" "[]"] b unfolding append_Nil2 by blast
  obtain rm where rm: "eslesmeler (Yuzde_m # [Harf CHR ''-'', Yuzde_d]) (sifir_doldur 2 m @ CHR ''-'' # sifir_doldur 2 d) =
      map (\<lambda>(gs, r). ((Yuzde_m, sifir_doldur 2 m) # gs, r))
        (eslesmeler [Harf CHR ''-'', Yuzde_d] (CHR ''-'' # sifir_doldur 2 d)) @ rm"
    using eslesmeler_m [of m "[Harf CHR ''-'', Yuzde_d]" "CHR ''-'' # sifir_doldur 2 d"] b by blast
  have y4: "length (sifir_doldur 4 y) = 4" using sifir_doldur_uzunluk [of y 4] b by simp
  have "tarih_yaz (Tarih y m d) =
      sifir_doldur 4 y @ CHR ''-'' # (sifir_doldur 2 m @ CHR ''-'' # sifir_doldur 2 d)" by simp
  then show ?thesis
    unfolding fmt_Ymd_def
    by (simp del: eslesmeler.simps tarih_yaz.simps
        add: rd rm eslesmeler_Y [OF y4 sifir_doldur_rakam] eslesmeler_Harf) (simp add: eslesmeler.simps(1))
qed

lemma strptime_tarih_yaz: "gecerli t \<Longrightarrow> strptime fmt_Ymd (tarih_yaz t) = Inr t"
proof (cases t)
  case (Tarih y m d)
  assume v0: "gecerli t"
  then have v: "gecerli (Tarih y m d)" using Tarih by simp
  then obtain rest where e: "eslesmeler fmt_Ymd (tarih_yaz (Tarih y m d)) =
     ([(Yuzde_Y, sifir_doldur 4 y), (Harf CHR ''-'', ''-''), (Yuzde_m, sifir_doldur 2 m),
       (Harf CHR ''-'', ''-''), (Yuzde_d, sifir_doldur 2 d)], []) # rest"
    using eslesmeler_Ymd by blast
  have "0 \<le> y" "0 \<le> m" "0 \<le> d" using gecerli_alanlar [OF v] by auto
  then show ?thesis using v Tarih
    by (simp add: strptime_def e grup_def sifir_doldur_degeri del: tarih_yaz.simps gecerli.simps)
qed

text \<open>The dataset's date cells, \<open>ddmmyyyy\<close> with zeros (\<open>spec.md\<close>, section 6).\<close>

lemma eslesmeler_dmY:
  assumes v: "gecerli (Tarih y m d)"
  shows "\<exists>rest. eslesmeler fmt_dmY (sifir_doldur 2 d @ sifir_doldur 2 m @ sifir_doldur 4 y) =
     ([(Yuzde_d, sifir_doldur 2 d), (Yuzde_m, sifir_doldur 2 m), (Yuzde_Y, sifir_doldur 4 y)], []) # rest"
proof -
  note b = gecerli_alanlar [OF v]
  have y4: "length (sifir_doldur 4 y) = 4" using sifir_doldur_uzunluk [of y 4] b by simp
  have ey: "eslesmeler [Yuzde_Y] (sifir_doldur 4 y) = [([(Yuzde_Y, sifir_doldur 4 y)], [])]"
    using eslesmeler_Y [OF y4 sifir_doldur_rakam, of "[]" "[]"] by simp
  obtain rm where rm: "eslesmeler [Yuzde_m, Yuzde_Y] (sifir_doldur 2 m @ sifir_doldur 4 y) =
      map (\<lambda>(gs, r). ((Yuzde_m, sifir_doldur 2 m) # gs, r)) (eslesmeler [Yuzde_Y] (sifir_doldur 4 y)) @ rm"
    using eslesmeler_m [of m "[Yuzde_Y]" "sifir_doldur 4 y"] b by blast
  obtain rd where rd: "eslesmeler [Yuzde_d, Yuzde_m, Yuzde_Y] (sifir_doldur 2 d @ sifir_doldur 2 m @ sifir_doldur 4 y) =
      map (\<lambda>(gs, r). ((Yuzde_d, sifir_doldur 2 d) # gs, r))
        (eslesmeler [Yuzde_m, Yuzde_Y] (sifir_doldur 2 m @ sifir_doldur 4 y)) @ rd"
    using eslesmeler_d [of d "[Yuzde_m, Yuzde_Y]" "sifir_doldur 2 m @ sifir_doldur 4 y"] b by blast
  show ?thesis
    unfolding fmt_dmY_def by (simp del: eslesmeler.simps add: rd rm ey)
qed

lemma strptime_dmY:
  "gecerli (Tarih y m d) \<Longrightarrow>
   strptime fmt_dmY (sifir_doldur 2 d @ sifir_doldur 2 m @ sifir_doldur 4 y) = Inr (Tarih y m d)"
proof -
  assume v: "gecerli (Tarih y m d)"
  then obtain rest where e: "eslesmeler fmt_dmY (sifir_doldur 2 d @ sifir_doldur 2 m @ sifir_doldur 4 y) =
     ([(Yuzde_d, sifir_doldur 2 d), (Yuzde_m, sifir_doldur 2 m), (Yuzde_Y, sifir_doldur 4 y)], []) # rest"
    using eslesmeler_dmY by blast
  have "0 \<le> y" "0 \<le> m" "0 \<le> d" using gecerli_alanlar [OF v] by auto
  then show ?thesis using v
    by (simp add: strptime_def e grup_def sifir_doldur_degeri del: gecerli.simps)
qed

text \<open>
  An integer cell of seven digits (a date \<open>0dmmyyyy\<close> with its leading zero dropped by
  \<open>astype(str)\<close>): its digits split into the two leading ones, the month digit and the
  year, and the first match of \<open>%d%m%Y\<close> takes the two leading digits as the day.
\<close>

lemma ondalik_basamak: "0 < a \<Longrightarrow> r < 10 \<Longrightarrow> ondalik (10 * a + r) = ondalik a @ [rakamlar ! r]"
  by (subst ondalik.simps) simp

lemma ondalik_kuyruk:
  assumes "0 < a" "y < 10 ^ k"
  shows "\<exists>w. ondalik (a * 10 ^ k + y) = ondalik a @ w \<and> length w = k \<and> set w \<subseteq> set rakamlar \<and>
               sayi_degeri w = int y"
  using assms(2)
proof (induction k arbitrary: y)
  case 0
  then show ?case by (simp add: sayi_degeri_def)
next
  case (Suc k)
  have "y div 10 < 10 ^ k" using Suc.prems by simp
  then obtain w where w: "ondalik (a * 10 ^ k + y div 10) = ondalik a @ w" "length w = k"
      "set w \<subseteq> set rakamlar" "sayi_degeri w = int (y div 10)"
    using Suc.IH by blast
  have e: "a * 10 ^ Suc k + y = 10 * (a * 10 ^ k + y div 10) + y mod 10" by simp
  have p: "0 < a * 10 ^ k + y div 10" using assms(1) by simp
  have m: "y mod 10 < (10::nat)" by simp
  have o: "ondalik (a * 10 ^ Suc k + y) = ondalik a @ w @ [rakamlar ! (y mod 10)]"
    unfolding e ondalik_basamak [OF p m] w(1) by simp
  have "rakamlar ! (y mod 10) \<noteq> CHR '' ''" using rakamlar_bosluk rakamlar_nth [of "y mod 10"] by simp
  then have "sayi_degeri (w @ [rakamlar ! (y mod 10)]) = int y"
    using w(4) rakamlar_nth [of "y mod 10"] by (simp add: sayi_degeri_snoc of_nat_div of_nat_mod)
  then show ?case using o w(2,3) rakamlar_nth [of "y mod 10"] by (intro exI [of _ "w @ [rakamlar ! (y mod 10)]"]) auto
qed

lemma desen_kisa: "length xs < length p \<Longrightarrow> desen_eslestir p xs = None"
  by (induction p xs rule: desen_eslestir.induct) auto

lemma eslesmeler_Y_kisa: "length xs < 4 \<Longrightarrow> eslesmeler (Yuzde_Y # fs) xs = []"
  by (simp add: desen_kisa)

lemma eslesmeler_m_tek:
  assumes "c \<in> set ''123456789''" "length w = 4" "set w \<subseteq> set rakamlar"
  shows "eslesmeler [Yuzde_m, Yuzde_Y] (c # w) = [([(Yuzde_m, [c]), (Yuzde_Y, w)], [])]"
proof -
  obtain x w' where w: "w = x # w'" using assms(2) by (cases w) auto
  have "eslesmeler [Yuzde_Y] w' = []" using eslesmeler_Y_kisa [of w' "[]"] assms(2) w by simp
  moreover have "eslesmeler [Yuzde_Y] w = [([(Yuzde_Y, w)], [])]"
    using eslesmeler_Y [OF assms(2,3), of "[]" "[]"] by simp
  ultimately show ?thesis using assms(1) unfolding w
    by (auto simp: pozitif_rakam_def split: option.splits)
qed

lemma eslesmeler_d_on:
  "c \<in> set ''123'' \<Longrightarrow> \<exists>rest. eslesmeler (Yuzde_d # fs) (c # CHR ''0'' # xs) =
     map (\<lambda>(gs, r). ((Yuzde_d, [c, CHR ''0'']) # gs, r)) (eslesmeler fs xs) @ rest"
  by (auto simp: rakam_def pozitif_rakam_def)

lemma eslesmeler_dmY_yedi:
  assumes "c \<in> set ''123''" "cm \<in> set ''123456789''" "length w = 4" "set w \<subseteq> set rakamlar"
  shows "\<exists>rest. eslesmeler fmt_dmY (c # CHR ''0'' # cm # w) =
           ([(Yuzde_d, [c, CHR ''0'']), (Yuzde_m, [cm]), (Yuzde_Y, w)], []) # rest"
proof -
  obtain rest where r: "eslesmeler [Yuzde_d, Yuzde_m, Yuzde_Y] (c # CHR ''0'' # cm # w) =
      map (\<lambda>(gs, r). ((Yuzde_d, [c, CHR ''0'']) # gs, r)) (eslesmeler [Yuzde_m, Yuzde_Y] (cm # w)) @ rest"
    using eslesmeler_d_on [OF assms(1)] by blast
  show ?thesis unfolding fmt_dmY_def
    by (simp del: eslesmeler.simps add: r eslesmeler_m_tek [OF assms(2-4)])
qed

lemma yedi_hane_basi:
  assumes "d \<in> {1, 2, 3}" "1 \<le> m" "m \<le> (9::int)"
  shows "\<exists>c cm. c \<in> set ''123'' \<and> cm \<in> set ''123456789'' \<and> ondalik (nat (d * 100 + m)) = [c, CHR ''0'', cm] \<and>
           sayi_degeri [c, CHR ''0''] = 10 * d \<and> sayi_degeri [cm] = m"
proof -
  have "m = 1 \<or> m = 2 \<or> m = 3 \<or> m = 4 \<or> m = 5 \<or> m = 6 \<or> m = 7 \<or> m = 8 \<or> m = 9"
    using assms(2,3) by arith
  then show ?thesis using assms(1) by (elim disjE insertE) (simp_all add: eval_simps)
qed

lemma strptime_yedi_hane:
  assumes "d \<in> {1, 2, 3}" "1 \<le> m" "m \<le> 9" "1000 \<le> y" "y \<le> 9999"
  shows "strptime fmt_dmY (py_str (d * 1000000 + m * 10000 + y)) =
    (if gecerli (Tarih y m (10 * d)) then Inr (Tarih y m (10 * d))
     else Inl (ValueError ''day is out of range for month''))"
proof -
  obtain c cm where b: "c \<in> set ''123''" "cm \<in> set ''123456789''"
      "ondalik (nat (d * 100 + m)) = [c, CHR ''0'', cm]" "sayi_degeri [c, CHR ''0''] = 10 * d" "sayi_degeri [cm] = m"
    using yedi_hane_basi [OF assms(1-3)] by blast
  have a: "0 < nat (d * 100 + m)" "nat y < 10 ^ 4" using assms by auto
  obtain w where w: "ondalik (nat (d * 100 + m) * 10 ^ 4 + nat y) = ondalik (nat (d * 100 + m)) @ w"
      "length w = 4" "set w \<subseteq> set rakamlar" "sayi_degeri w = int (nat y)"
    using ondalik_kuyruk [OF a] by blast
  have n: "nat (d * 1000000 + m * 10000 + y) = nat (d * 100 + m) * 10 ^ 4 + nat y"
  proof -
    have "nat (d * 1000000 + m * 10000 + y) = nat ((d * 100 + m) * 10000 + y)" by (simp add: algebra_simps)
    also have "\<dots> = nat ((d * 100 + m) * 10000) + nat y"
      by (rule nat_add_distrib) (use assms in auto)
    also have "\<dots> = nat (d * 100 + m) * 10 ^ 4 + nat y"
      using nat_mult_distrib [of "d * 100 + m" 10000] assms by auto
    finally show ?thesis .
  qed
  have "\<not> d * 1000000 + m * 10000 + y < 0" using assms by auto
  then have p: "py_str (d * 1000000 + m * 10000 + y) = c # CHR ''0'' # cm # w"
    using w(1) b(3) n by (simp add: py_str_def)
  obtain rest where e: "eslesmeler fmt_dmY (c # CHR ''0'' # cm # w) =
      ([(Yuzde_d, [c, CHR ''0'']), (Yuzde_m, [cm]), (Yuzde_Y, w)], []) # rest"
    using eslesmeler_dmY_yedi [OF b(1,2) w(2,3)] by blast
  show ?thesis using assms(4) w(4) b(4,5)
    by (simp add: p e strptime_def grup_def del: gecerli.simps)
qed

end
