(* ===== verification/Optimizer.thy ===== *)
theory Optimizer
  imports Strptime
begin

text \<open>
  The capacity-constrained optimiser: the body of the loop of \<open>tahmin_et\<close>
  (\<open>src/app.py\<close>, lines 57--94) for one business day. It builds the feature row of the
  date with the holiday flag forced to 0, asks the invitation model for its baseline
  \<open>orijinal_davet\<close>, scans the candidate invitation counts \<open>range(20, 150)\<close>, scales
  the attendance prediction linearly by \<open>aday_davet / orijinal_davet\<close> (or by 1 when
  the baseline is 0), rejects candidates whose scaled attendance exceeds 45, keeps the
  first candidate whose scaled attendance is strictly closest to the target
  \<open>45 * 0.9\<close>, and finally rescales the three other predictions for that candidate and
  rounds them with Python's \<open>round\<close>. The four trained regressors are the fields of
  the record \<open>modeller\<close>: any functions from feature rows to reals (their training is
  modelled in \<open>Dataset\<close>). Floats are modelled as reals.
\<close>

section \<open>Feature rows and models\<close>

text \<open>A row of the feature matrix, columns \<open>Gun, Ay, Hafta, Tatil\<close> (the first with a u-umlaut in the source).\<close>

record ozellik =
  f_gun :: int
  f_ay :: int
  f_hafta :: int
  f_tatil :: int

text \<open>
  \<open>model_davet\<close>, \<open>model_teyit\<close>, \<open>model_teyit_yok\<close>, \<open>model_katilim\<close>:
  the \<open>predict\<close> functions of the four regressors, one per funnel stage.
\<close>

record modeller =
  model_davet :: "ozellik \<Rightarrow> real"
  model_teyit :: "ozellik \<Rightarrow> real"
  model_teyit_yok :: "ozellik \<Rightarrow> real"
  model_katilim :: "ozellik \<Rightarrow> real"

text \<open>Lines 58--63: the features of a business day, \<open>tatil = 0\<close>.\<close>

definition gun_ozellikleri :: "tarih \<Rightarrow> ozellik" where
  "gun_ozellikleri t =
     \<lparr>f_gun = weekday t, f_ay = ay t, f_hafta = iso_hafta t, f_tatil = 0\<rparr>"

section \<open>The search\<close>

text \<open>Lines 52--53: the target and the ceiling.\<close>

definition hedef_katilim :: real where
  "hedef_katilim = 45 * 0.9"

definition maksimum_katilim :: real where
  "maksimum_katilim = 45"

text \<open>\<open>en_fark\<close> starts at \<open>float('inf')\<close>.\<close>

datatype fark_degeri = Sonlu real | Sonsuz

fun fark_kucuk :: "real \<Rightarrow> fark_degeri \<Rightarrow> bool" where
  "fark_kucuk x Sonsuz \<longleftrightarrow> True"
| "fark_kucuk x (Sonlu y) \<longleftrightarrow> x < y"

text \<open>The three variables of the scan (lines 66--68).\<close>

record arama =
  en_iyi_davet :: int
  en_yakin_katilim :: real
  en_fark :: fark_degeri

definition arama_baslangic :: arama where
  "arama_baslangic = \<lparr>en_iyi_davet = 20, en_yakin_katilim = 0, en_fark = Sonsuz\<rparr>"

text \<open>Lines 71 and 82: \<open>aday_davet / orijinal_davet if orijinal_davet else 1\<close>.\<close>

definition katsayi :: "int \<Rightarrow> real \<Rightarrow> real" where
  "katsayi aday_davet orijinal_davet =
     (if orijinal_davet \<noteq> 0 then of_int aday_davet / orijinal_davet else 1)"

text \<open>Line 72: the scaled attendance prediction of a candidate.\<close>

definition tahmini_katilim :: "modeller \<Rightarrow> ozellik \<Rightarrow> int \<Rightarrow> real" where
  "tahmini_katilim M X aday_davet =
     model_katilim M X * katsayi aday_davet (model_davet M X)"

text \<open>Lines 71--79: one iteration of the scan.\<close>

definition aday_adimi :: "modeller \<Rightarrow> ozellik \<Rightarrow> arama \<Rightarrow> int \<Rightarrow> arama" where
  "aday_adimi M X st aday_davet =
     (let tk = tahmini_katilim M X aday_davet
      in if tk \<le> maksimum_katilim then
           (let fark = \<bar>tk - hedef_katilim\<bar>
            in if fark_kucuk fark (en_fark st)
               then st\<lparr>en_yakin_katilim := tk, en_iyi_davet := aday_davet, en_fark := Sonlu fark\<rparr>
               else st)
         else st)"

text \<open>Line 70: \<open>range(20, 150)\<close>.\<close>

definition aday_araligi :: "int list" where
  "aday_araligi = [20..149]"

definition en_iyi_arama :: "modeller \<Rightarrow> ozellik \<Rightarrow> arama" where
  "en_iyi_arama M X = foldl (aday_adimi M X) arama_baslangic aday_araligi"

section \<open>The forecast record of one day\<close>

text \<open>The dictionary appended at lines 87--94.\<close>

record gunluk_tahmin =
  t_tarih :: string
  t_gun :: string
  t_davet :: int
  t_teyit :: int
  t_teyit_vermeyen :: int
  t_katilim :: int

text \<open>Lines 58--94: the record of one business day.\<close>

definition gun_tahmini :: "modeller \<Rightarrow> tarih \<Rightarrow> gunluk_tahmin" where
  "gun_tahmini M t =
     (let X = gun_ozellikleri t;
          orijinal_davet = model_davet M X;
          en_iyi_davet' = en_iyi_davet (en_iyi_arama M X);
          k = katsayi en_iyi_davet' orijinal_davet
      in \<lparr>t_tarih = tarih_yaz t, t_gun = gun_adi t, t_davet = en_iyi_davet',
          t_teyit = py_round (model_teyit M X * k),
          t_teyit_vermeyen = py_round (model_teyit_yok M X * k),
          t_katilim = py_round (model_katilim M X * k)\<rparr>)"

declare hedef_katilim_def [eval_simps] maksimum_katilim_def [eval_simps]
  arama_baslangic_def [eval_simps] katsayi_def [eval_simps] tahmini_katilim_def [eval_simps]
  aday_adimi_def [eval_simps] aday_araligi_def [eval_simps] en_iyi_arama_def [eval_simps]
  gun_tahmini_def [eval_simps] gun_ozellikleri_def [eval_simps]

section \<open>Abstract specification of the choice\<close>

text \<open>
  What the scan promises: among the candidates whose scaled attendance stays within the
  ceiling, the first one (the smallest, since the range is ascending) at which the
  distance to the target is minimal; the lower bound 20 when no candidate is admissible.
\<close>

definition kabul_edilen :: "modeller \<Rightarrow> ozellik \<Rightarrow> int list" where
  "kabul_edilen M X = filter (\<lambda>k. tahmini_katilim M X k \<le> maksimum_katilim) aday_araligi"

definition secim_spec :: "modeller \<Rightarrow> ozellik \<Rightarrow> int" where
  "secim_spec M X =
     (let ks = kabul_edilen M X
      in if ks = [] then 20
         else arg_min_list (\<lambda>k. \<bar>tahmini_katilim M X k - hedef_katilim\<bar>) ks)"

declare kabul_edilen_def [eval_simps] secim_spec_def [eval_simps]

section \<open>Test inputs\<close>

text \<open>
  Constant regressors used by the witnesses: the scenario of the specification (a
  dataset with 100 invited, 90 confirmed, 10 declined and 85 attending every day) and
  an adversarial model whose scaled attendance exceeds the ceiling for every candidate.
\<close>

definition senaryo_modelleri :: modeller where
  "senaryo_modelleri = \<lparr>model_davet = (\<lambda>_. 100), model_teyit = (\<lambda>_. 90),
     model_teyit_yok = (\<lambda>_. 10), model_katilim = (\<lambda>_. 85)\<rparr>"

definition tasan_modeller :: modeller where
  "tasan_modeller = \<lparr>model_davet = (\<lambda>_. 10), model_teyit = (\<lambda>_. 9),
     model_teyit_yok = (\<lambda>_. 1), model_katilim = (\<lambda>_. 30)\<rparr>"

definition bazsiz_modeller :: modeller where
  "bazsiz_modeller = \<lparr>model_davet = (\<lambda>_. 0), model_teyit = (\<lambda>_. 9),
     model_teyit_yok = (\<lambda>_. 1), model_katilim = (\<lambda>_. 30)\<rparr>"

section \<open>Correctness of the search\<close>

text \<open>
  The scan is a left fold whose state, after any prefix of the candidates, is the first
  admissible candidate of minimal distance seen so far, or the initial state when none
  was admissible (\<open>foldl_aday_adimi\<close>, by induction on the prefix from the right).
\<close>

lemma foldl_aday_adimi:
  fixes M X
  defines "g \<equiv> \<lambda>k. \<bar>tahmini_katilim M X k - hedef_katilim\<bar>"
  defines "acc \<equiv> \<lambda>k. tahmini_katilim M X k \<le> maksimum_katilim"
  shows "foldl (aday_adimi M X) arama_baslangic xs =
     (if filter acc xs = [] then arama_baslangic
      else (let m = arg_min_list g (filter acc xs)
            in \<lparr>en_iyi_davet = m, en_yakin_katilim = tahmini_katilim M X m, en_fark = Sonlu (g m)\<rparr>))"
proof (induction xs rule: rev_induct)
  case Nil
  then show ?case by simp
next
  case (snoc x xs)
  show ?case
  proof (cases "acc x")
    case False
    with snoc.IH show ?thesis
      by (simp add: aday_adimi_def acc_def Let_def)
  next
    case True
    show ?thesis
    proof (cases "filter acc xs = []")
      case True
      with snoc.IH \<open>acc x\<close> show ?thesis
        by (simp add: aday_adimi_def acc_def g_def arama_baslangic_def Let_def)
    next
      case False
      with snoc.IH \<open>acc x\<close> show ?thesis
        by (simp add: aday_adimi_def acc_def g_def arg_min_list_snoc Let_def)
    qed
  qed
qed

lemma en_iyi_arama_eq:
  "en_iyi_arama M X =
     (if kabul_edilen M X = [] then arama_baslangic
      else (let m = secim_spec M X
            in \<lparr>en_iyi_davet = m, en_yakin_katilim = tahmini_katilim M X m,
                en_fark = Sonlu \<bar>tahmini_katilim M X m - hedef_katilim\<bar>\<rparr>))"
  unfolding en_iyi_arama_def kabul_edilen_def secim_spec_def
  by (subst foldl_aday_adimi) (simp add: Let_def)

lemma aday_araligi_sorted: "sorted_wrt (<) aday_araligi"
  unfolding aday_araligi_def strict_sorted_iff by (simp only: sorted_upto distinct_upto conj_absorb)

lemma set_aday_araligi: "set aday_araligi = {20..149}"
  by (simp only: aday_araligi_def set_upto)

lemma kabul_edilen_iff:
  "k \<in> set (kabul_edilen M X) \<longleftrightarrow> 20 \<le> k \<and> k < 150 \<and> tahmini_katilim M X k \<le> 45"
  by (auto simp: kabul_edilen_def set_aday_araligi maksimum_katilim_def)

lemma secim_spec_in:
  "kabul_edilen M X \<noteq> [] \<Longrightarrow> secim_spec M X \<in> set (kabul_edilen M X)"
  by (simp add: secim_spec_def arg_min_list_in)

lemma gun_tahmini_davet_araligi: "20 \<le> t_davet (gun_tahmini M t) \<and> t_davet (gun_tahmini M t) < 150"
proof (cases "kabul_edilen M (gun_ozellikleri t) = []")
  case True
  then show ?thesis by (simp add: gun_tahmini_def en_iyi_arama_eq arama_baslangic_def Let_def)
next
  case False
  then have "secim_spec M (gun_ozellikleri t) \<in> set (kabul_edilen M (gun_ozellikleri t))"
    by (rule secim_spec_in)
  with False show ?thesis
    by (simp add: gun_tahmini_def en_iyi_arama_eq kabul_edilen_iff Let_def)
qed

lemma gun_tahmini_katilim_siniri:
  assumes "\<exists>k. 20 \<le> k \<and> k < 150 \<and> tahmini_katilim M (gun_ozellikleri t) k \<le> 45"
  shows "t_katilim (gun_tahmini M t) \<le> 45"
proof -
  let ?X = "gun_ozellikleri t"
  obtain k where "20 \<le> k" "k < 150" "tahmini_katilim M ?X k \<le> 45"
    using assms by blast
  then have "k \<in> set (kabul_edilen M ?X)" by (simp add: kabul_edilen_iff)
  then have ne: "kabul_edilen M ?X \<noteq> []" by auto
  then have "secim_spec M ?X \<in> set (kabul_edilen M ?X)" by (rule secim_spec_in)
  then have c: "tahmini_katilim M ?X (secim_spec M ?X) \<le> of_int 45"
    by (simp add: kabul_edilen_iff)
  have "py_round (tahmini_katilim M ?X (secim_spec M ?X)) \<le> 45"
    by (rule py_round_mono_int) (use c in simp)
  with ne show ?thesis
    by (simp add: gun_tahmini_def en_iyi_arama_eq tahmini_katilim_def Let_def)
qed

text \<open>
  C1. The scan of lines 66--79 implements its specification: the invitation count it
  selects is the first admissible candidate at minimal distance from the target, or 20
  when no candidate is admissible.
\<close>

theorem en_iyi_arama_secim_spec: "en_iyi_davet (en_iyi_arama M X) = secim_spec M X"
  by (simp add: en_iyi_arama_eq secim_spec_def arama_baslangic_def Let_def)

text \<open>
  C2. When some candidate in \<open>range(20, 150)\<close> keeps the scaled attendance within 45,
  the selected count is such a candidate, no admissible candidate is strictly closer to
  the target 40.5, and every smaller admissible candidate is strictly farther (ties go
  to the earliest candidate).
\<close>

theorem en_iyi_arama_optimal:
  assumes "20 \<le> k" "k < 150" "tahmini_katilim M X k \<le> 45"
  shows "let c = en_iyi_davet (en_iyi_arama M X);
             fark = (\<lambda>j. \<bar>tahmini_katilim M X j - hedef_katilim\<bar>)
         in 20 \<le> c \<and> c < 150 \<and> tahmini_katilim M X c \<le> 45 \<and>
            (\<forall>j. 20 \<le> j \<and> j < 150 \<and> tahmini_katilim M X j \<le> 45 \<longrightarrow>
                 fark c \<le> fark j \<and> (j < c \<longrightarrow> fark c < fark j))"
proof -
  let ?A = "kabul_edilen M X"
  let ?f = "\<lambda>j. \<bar>tahmini_katilim M X j - hedef_katilim\<bar>"
  have ne: "?A \<noteq> []" using assms kabul_edilen_iff [of k M X] by force
  have c: "en_iyi_davet (en_iyi_arama M X) = arg_min_list ?f ?A"
    using ne by (simp add: en_iyi_arama_eq secim_spec_def Let_def)
  have in_A: "arg_min_list ?f ?A \<in> set ?A" using ne by (rule arg_min_list_in)
  have sorted: "sorted_wrt (<) ?A"
    unfolding kabul_edilen_def by (rule sorted_wrt_filter) (rule aday_araligi_sorted)
  have "\<forall>j. 20 \<le> j \<and> j < 150 \<and> tahmini_katilim M X j \<le> 45 \<longrightarrow>
          ?f (arg_min_list ?f ?A) \<le> ?f j \<and> (j < arg_min_list ?f ?A \<longrightarrow> ?f (arg_min_list ?f ?A) < ?f j)"
    using arg_min_list_le [of _ ?A ?f] arg_min_list_first [OF sorted, of _ ?f] kabul_edilen_iff
    by blast
  with in_A c show ?thesis
    by (simp add: kabul_edilen_iff Let_def)
qed

text \<open>
  C3. When some candidate is admissible, the forecast record of the day never exceeds
  the capacity: its rounded attendance is at most 45 and its invitation count lies in
  \<open>[20, 150)\<close>.
\<close>

theorem gun_tahmini_kapasite:
  assumes "\<exists>k. 20 \<le> k \<and> k < 150 \<and> tahmini_katilim M (gun_ozellikleri t) k \<le> 45"
  shows "t_katilim (gun_tahmini M t) \<le> 45 \<and> 20 \<le> t_davet (gun_tahmini M t) \<and> t_davet (gun_tahmini M t) < 150"
  using gun_tahmini_katilim_siniri [OF assms] gun_tahmini_davet_araligi [of M t] by simp

text \<open>
  C4. When every candidate exceeds the ceiling, the code falls back silently to 20
  invitations and reports the unconstrained scaled attendance of 20, which can exceed
  the capacity (the witness reports 60 attendees for a room of 45).
\<close>

theorem gun_tahmini_yedek:
  assumes "\<forall>k. 20 \<le> k \<and> k < 150 \<longrightarrow> 45 < tahmini_katilim M (gun_ozellikleri t) k"
  shows "t_davet (gun_tahmini M t) = 20 \<and>
         t_katilim (gun_tahmini M t) = py_round (tahmini_katilim M (gun_ozellikleri t) 20)"
proof -
  have "kabul_edilen M (gun_ozellikleri t) = []"
    using assms kabul_edilen_iff by (metis list.set_sel(1) not_le)
  then show ?thesis
    by (simp add: gun_tahmini_def en_iyi_arama_eq arama_baslangic_def tahmini_katilim_def Let_def)
qed

lemma senaryo_secim: "secim_spec senaryo_modelleri X = 48"
  by (simp add: senaryo_modelleri_def eval_simps)

theorem gun_tahmini_yedek_witness:
  "t_davet (gun_tahmini tasan_modeller (Tarih 2024 3 15)) = 20 \<and>
   t_katilim (gun_tahmini tasan_modeller (Tarih 2024 3 15)) = 60"
proof -
  have h: "\<forall>k. 20 \<le> k \<and> k < 150 \<longrightarrow> 45 < tahmini_katilim tasan_modeller (gun_ozellikleri (Tarih 2024 3 15)) k"
    by (simp add: tasan_modeller_def tahmini_katilim_def katsayi_def)
  show ?thesis
    using gun_tahmini_yedek [OF h] by (simp add: tasan_modeller_def eval_simps)
qed
theorem en_iyi_arama_optimal_witness:
  "20 \<le> en_iyi_davet (en_iyi_arama senaryo_modelleri (gun_ozellikleri (Tarih 2024 3 15))) \<and>
   tahmini_katilim senaryo_modelleri (gun_ozellikleri (Tarih 2024 3 15))
     (en_iyi_davet (en_iyi_arama senaryo_modelleri (gun_ozellikleri (Tarih 2024 3 15)))) \<le> 45 \<and>
   \<bar>tahmini_katilim senaryo_modelleri (gun_ozellikleri (Tarih 2024 3 15))
     (en_iyi_davet (en_iyi_arama senaryo_modelleri (gun_ozellikleri (Tarih 2024 3 15)))) - hedef_katilim\<bar>
   < \<bar>tahmini_katilim senaryo_modelleri (gun_ozellikleri (Tarih 2024 3 15)) 47 - hedef_katilim\<bar>"
proof -
  let ?X = "gun_ozellikleri (Tarih 2024 3 15)"
  have h: "tahmini_katilim senaryo_modelleri ?X 48 \<le> 45"
    and h47: "tahmini_katilim senaryo_modelleri ?X 47 \<le> 45"
    by (simp_all add: senaryo_modelleri_def tahmini_katilim_def katsayi_def)
  have "48 \<in> set (kabul_edilen senaryo_modelleri ?X)"
    using h by (simp add: kabul_edilen_iff)
  then have "kabul_edilen senaryo_modelleri ?X \<noteq> []" by auto
  then have c: "en_iyi_davet (en_iyi_arama senaryo_modelleri ?X) = 48"
    by (simp add: en_iyi_arama_eq senaryo_secim Let_def)
  show ?thesis
    using en_iyi_arama_optimal [of 48 senaryo_modelleri ?X, OF _ _ h] h47 c
    by (simp add: Let_def)
qed

theorem gun_tahmini_kapasite_witness:
  "(\<exists>k. 20 \<le> k \<and> k < 150 \<and> tahmini_katilim senaryo_modelleri (gun_ozellikleri (Tarih 2024 3 15)) k \<le> 45) \<and>
   t_katilim (gun_tahmini senaryo_modelleri (Tarih 2024 3 15)) \<le> 45 \<and>
   20 \<le> t_davet (gun_tahmini senaryo_modelleri (Tarih 2024 3 15)) \<and>
   t_davet (gun_tahmini senaryo_modelleri (Tarih 2024 3 15)) < 150"
proof -
  have h: "\<exists>k. 20 \<le> k \<and> k < 150 \<and> tahmini_katilim senaryo_modelleri (gun_ozellikleri (Tarih 2024 3 15)) k \<le> 45"
    by (rule exI [of _ 48]) (simp add: senaryo_modelleri_def tahmini_katilim_def katsayi_def)
  show ?thesis
    using gun_tahmini_kapasite [OF h] h by simp
qed

text \<open>
  C5. When the invitation model predicts a baseline of 0, the ratio is 1 for every
  candidate, all candidates tie, and the first one, 20, is chosen; the attendance is the
  raw prediction, rounded.
\<close>

theorem gun_tahmini_bazsiz:
  assumes "model_davet M (gun_ozellikleri t) = 0"
    and "model_katilim M (gun_ozellikleri t) \<le> 45"
  shows "t_davet (gun_tahmini M t) = 20 \<and>
         t_katilim (gun_tahmini M t) = py_round (model_katilim M (gun_ozellikleri t))"
proof -
  let ?X = "gun_ozellikleri t"
  have tk: "tahmini_katilim M ?X k = model_katilim M ?X" for k
    using assms(1) by (simp add: tahmini_katilim_def katsayi_def)
  have araligi: "aday_araligi = 20 # [21..149]"
    by (simp add: aday_araligi_def upto_rec1)
  have A: "kabul_edilen M ?X = aday_araligi"
    using assms(2) by (simp add: kabul_edilen_def tk maksimum_katilim_def)
  have ne: "kabul_edilen M ?X \<noteq> []"
    unfolding A araligi by (rule list.discI) simp
  have "secim_spec M ?X = 20"
    by (simp add: secim_spec_def A tk araligi arg_min_list_const)
  with ne assms(1) show ?thesis
    by (simp add: gun_tahmini_def en_iyi_arama_eq katsayi_def Let_def)
qed

theorem gun_tahmini_bazsiz_witness:
  "model_davet bazsiz_modeller (gun_ozellikleri (Tarih 2024 3 15)) = 0 \<and>
   model_katilim bazsiz_modeller (gun_ozellikleri (Tarih 2024 3 15)) \<le> 45 \<and>
   t_davet (gun_tahmini bazsiz_modeller (Tarih 2024 3 15)) = 20 \<and>
   t_katilim (gun_tahmini bazsiz_modeller (Tarih 2024 3 15)) = 30"
proof -
  have h1: "model_davet bazsiz_modeller (gun_ozellikleri (Tarih 2024 3 15)) = 0"
    and h2: "model_katilim bazsiz_modeller (gun_ozellikleri (Tarih 2024 3 15)) \<le> 45"
    by (simp_all add: bazsiz_modeller_def)
  show ?thesis
    using gun_tahmini_bazsiz [OF h1 h2] h1 h2 by (simp add: bazsiz_modeller_def)
qed


text \<open>
  C19. For models whose predictions are non-negative, every count of a day's record is
  non-negative, and the reported attendance is the scaled prediction of the chosen
  invitation count rounded to the nearest integer (within one half).
\<close>

theorem gun_tahmini_sinirlari:
  assumes "0 \<le> model_davet M (gun_ozellikleri t)" "0 \<le> model_teyit M (gun_ozellikleri t)"
    "0 \<le> model_teyit_yok M (gun_ozellikleri t)" "0 \<le> model_katilim M (gun_ozellikleri t)"
  shows "0 \<le> t_teyit (gun_tahmini M t) \<and> 0 \<le> t_teyit_vermeyen (gun_tahmini M t) \<and>
         0 \<le> t_katilim (gun_tahmini M t) \<and>
         \<bar>of_int (t_katilim (gun_tahmini M t)) -
            tahmini_katilim M (gun_ozellikleri t) (t_davet (gun_tahmini M t))\<bar> \<le> 1/2"
proof -
  let ?X = "gun_ozellikleri t"
  let ?c = "en_iyi_davet (en_iyi_arama M ?X)"
  have "20 \<le> t_davet (gun_tahmini M t)" using gun_tahmini_davet_araligi [of M t] by simp
  then have "0 \<le> katsayi ?c (model_davet M ?X)"
    using assms(1) by (simp add: gun_tahmini_def Let_def katsayi_def)
  then show ?thesis
    using assms py_round_dist [of "tahmini_katilim M ?X ?c"]
    by (simp add: gun_tahmini_def Let_def tahmini_katilim_def py_round_nonneg)
qed

theorem gun_tahmini_sinirlari_witness:
  "0 \<le> t_teyit (gun_tahmini senaryo_modelleri (Tarih 2024 3 15)) \<and>
   0 \<le> t_katilim (gun_tahmini senaryo_modelleri (Tarih 2024 3 15)) \<and>
   \<bar>of_int (t_katilim (gun_tahmini senaryo_modelleri (Tarih 2024 3 15))) -
      tahmini_katilim senaryo_modelleri (gun_ozellikleri (Tarih 2024 3 15))
        (t_davet (gun_tahmini senaryo_modelleri (Tarih 2024 3 15)))\<bar> \<le> 1/2"
  using gun_tahmini_sinirlari [of senaryo_modelleri "Tarih 2024 3 15"]
  by (simp add: senaryo_modelleri_def)

end
