(* ===== verification/Forecast.thy ===== *)
theory Forecast
  imports Optimizer
begin

text \<open>
  The forecast sequence generator \<open>tahmin_et\<close> (\<open>src/app.py\<close>, lines 47--98): it
  parses the two range ends with \<open>strptime("%Y-%m-%d")\<close>, then walks from the first
  date to the last one day at a time (\<open>while mevcut_tarih <= bitis\<close>, \<open>mevcut_tarih +=
  timedelta(days=1)\<close>), appends the optimiser's record for every date that is neither a
  weekend day nor a holiday, and returns the list. The loop is a recursion with the
  accumulated list as a parameter; it terminates because the date grows in the
  lexicographic order of its fields and stays below the end date. The parameter
  \<open>tolerans_aktif\<close> is accepted and never read, as in the source.
\<close>

section \<open>The loop\<close>

function tahmin_dongu ::
  "tatil_takvimi \<Rightarrow> modeller \<Rightarrow> tarih \<Rightarrow> tarih \<Rightarrow> gunluk_tahmin list \<Rightarrow> gunluk_tahmin list sonuc"
where
  "tahmin_dongu H M mevcut_tarih bitis tahmin_sonuclari =
     (if mevcut_tarih \<le> bitis then
        (let tahmin_sonuclari' =
               (if \<not> resmi_tatil_mi H mevcut_tarih
                then tahmin_sonuclari @ [gun_tahmini M mevcut_tarih]
                else tahmin_sonuclari)
         in case gun_ekle mevcut_tarih of
              Inl e \<Rightarrow> Inl e
            | Inr sonraki \<Rightarrow> tahmin_dongu H M sonraki bitis tahmin_sonuclari')
      else Inr tahmin_sonuclari)"
  by pat_completeness auto

termination
proof (relation "measures
    [\<lambda>(H, M, c, b, acc). nat (yil b - yil c + 1),
     \<lambda>(H, M, c, b, acc). nat (13 - ay c),
     \<lambda>(H, M, c, b, acc). nat (days_in_month (yil c) (ay c) - gun c)]")
  show "wf (measures
    [\<lambda>(H, M, c, b, acc). nat (yil b - yil c + 1),
     \<lambda>(H, M, c, b, acc). nat (13 - ay c),
     \<lambda>(H, M, c, b, acc). nat (days_in_month (yil c) (ay c) - gun c)])"
    by simp
next
  fix H M c b acc acc' n
  assume le: "c \<le> b" and n: "gun_ekle c = Inr n"
  from n have n': "n = sonraki_gun c" by (rule gun_ekle_Inr)
  obtain y m d where c: "c = Tarih y m d" by (cases c)
  obtain y' m' d' where b: "b = Tarih y' m' d'" by (cases b)
  from le c b have "y \<le> y'" by (auto simp: tarih_le_iff)
  with n' c b show "((H, M, n, b, acc'), H, M, c, b, acc) \<in> measures
    [\<lambda>(H, M, c, b, acc). nat (yil b - yil c + 1),
     \<lambda>(H, M, c, b, acc). nat (13 - ay c),
     \<lambda>(H, M, c, b, acc). nat (days_in_month (yil c) (ay c) - gun c)]"
    by auto
qed

declare tahmin_dongu.simps [simp del]

text \<open>Lines 47--56 and 98: parse the range, run the loop from an empty list.\<close>

definition tahmin_et ::
  "tatil_takvimi \<Rightarrow> modeller \<Rightarrow> string \<Rightarrow> string \<Rightarrow> bool \<Rightarrow> gunluk_tahmin list sonuc"
where
  "tahmin_et H M baslangic bitis tolerans_aktif =
     (case strptime fmt_Ymd baslangic of
        Inl e \<Rightarrow> Inl e
      | Inr b \<Rightarrow>
          (case strptime fmt_Ymd bitis of
             Inl e \<Rightarrow> Inl e
           | Inr e' \<Rightarrow> tahmin_dongu H M b e' []))"

declare tahmin_et_def [eval_simps]

section \<open>Properties of the loop\<close>

text \<open>
  The loop, run from a valid date towards a valid end date other than 9999-12-31,
  returns the accumulated list extended by the records of exactly the business days from
  the current date to the end, in increasing order (\<open>tahmin_dongu_aralik\<close>, by
  computation induction over the loop, splitting the range at the current date with
  \<open>aralik_bol\<close>). Run towards 9999-12-31 it always ends in the OverflowError of the
  last increment (\<open>tahmin_dongu_tasma\<close>). Whatever it returns consists of the
  accumulated records and optimiser records of business days (\<open>tahmin_dongu_kayitlar\<close>).
\<close>

lemma aralik_bol:
  assumes "gecerli c"
  shows "{d. gecerli d \<and> c \<le> d \<and> d \<le> e \<and> P d} =
         (if c \<le> e \<and> P c then {c} else {}) \<union> {d. gecerli d \<and> sonraki_gun c \<le> d \<and> d \<le> e \<and> P d}"
proof -
  have "c \<le> d \<longleftrightarrow> d = c \<or> sonraki_gun c \<le> d" if "gecerli d" for d
    using sonraki_gun_least [OF assms that] sonraki_gun_greater [of c]
    by (auto simp: order.order_iff_strict dest: order.strict_trans2)
  then show ?thesis using assms by auto
qed

lemma tahmin_dongu_aralik:
  "gecerli c \<Longrightarrow> gecerli e \<Longrightarrow> e \<noteq> Tarih 9999 12 31 \<Longrightarrow>
   \<exists>ds. tahmin_dongu H M c e acc = Inr (acc @ map (gun_tahmini M) ds) \<and> sorted_wrt (<) ds \<and>
        set ds = {d. gecerli d \<and> c \<le> d \<and> d \<le> e \<and> \<not> resmi_tatil_mi H d}"
proof (induction H M c e acc rule: tahmin_dongu.induct)
  case (1 H M c e acc)
  show ?case
  proof (cases "c \<le> e")
    case False
    then have "tahmin_dongu H M c e acc = Inr acc"
      by (simp add: tahmin_dongu.simps [of H M c e acc])
    moreover have "{d. gecerli d \<and> c \<le> d \<and> d \<le> e \<and> \<not> resmi_tatil_mi H d} = {}"
      using False by auto
    ultimately show ?thesis by (intro exI [of _ "[]"]) simp
  next
    case True
    have cmax: "c \<noteq> Tarih 9999 12 31"
      using True "1.prems" gecerli_le_max [of e] by auto
    let ?acc' = "if \<not> resmi_tatil_mi H c then acc @ [gun_tahmini M c] else acc"
    have ekle: "gun_ekle c = Inr (sonraki_gun c)"
      using gun_ekle_gecerli [OF "1.prems"(1)] cmax by simp
    have vs: "gecerli (sonraki_gun c)"
      using gecerli_sonraki_gun_max [OF "1.prems"(1) cmax] .
    obtain ds where ds: "tahmin_dongu H M (sonraki_gun c) e ?acc' = Inr (?acc' @ map (gun_tahmini M) ds)"
      and sorted: "sorted_wrt (<) ds"
      and set_ds: "set ds = {d. gecerli d \<and> sonraki_gun c \<le> d \<and> d \<le> e \<and> \<not> resmi_tatil_mi H d}"
      using "1.IH" [OF True refl ekle vs "1.prems"(2,3)] by blast
    have step: "tahmin_dongu H M c e acc = tahmin_dongu H M (sonraki_gun c) e ?acc'"
      using True ekle by (simp add: tahmin_dongu.simps [of H M c e acc] Let_def)
    have gt: "\<forall>d\<in>set ds. c < d"
      using set_ds sonraki_gun_greater [of c] by (auto dest: order.strict_trans2)
    show ?thesis
    proof (cases "resmi_tatil_mi H c")
      case True
      then show ?thesis
        using step ds sorted set_ds aralik_bol [OF "1.prems"(1), of e "\<lambda>d. \<not> resmi_tatil_mi H d"]
        by (intro exI [of _ ds]) simp
    next
      case False
      then show ?thesis
        using step ds sorted set_ds gt \<open>c \<le> e\<close>
          aralik_bol [OF "1.prems"(1), of e "\<lambda>d. \<not> resmi_tatil_mi H d"]
        by (intro exI [of _ "c # ds"]) simp
    qed
  qed
qed

lemma tahmin_dongu_tasma:
  "gecerli c \<Longrightarrow> e = Tarih 9999 12 31 \<Longrightarrow>
   tahmin_dongu H M c e acc = Inl (OverflowError ''date value out of range'')"
proof (induction H M c e acc rule: tahmin_dongu.induct)
  case (1 H M c e acc)
  have le: "c \<le> e" using gecerli_le_max [OF "1.prems"(1)] "1.prems"(2) by simp
  let ?acc' = "if \<not> resmi_tatil_mi H c then acc @ [gun_tahmini M c] else acc"
  show ?case
  proof (cases "c = Tarih 9999 12 31")
    case True
    show ?thesis
      unfolding tahmin_dongu.simps [of H M c e acc]
      using True gun_ekle_gecerli [OF "1.prems"(1)] le by (simp add: Let_def)
  next
    case False
    have ekle: "gun_ekle c = Inr (sonraki_gun c)"
      using gun_ekle_gecerli [OF "1.prems"(1)] False by simp
    have "tahmin_dongu H M (sonraki_gun c) e ?acc' = Inl (OverflowError ''date value out of range'')"
      using "1.IH" [OF le refl ekle gecerli_sonraki_gun_max [OF "1.prems"(1) False] "1.prems"(2)] .
    then show ?thesis
      using le ekle by (simp add: tahmin_dongu.simps [of H M c e acc] Let_def)
  qed
qed

lemma tahmin_dongu_kayitlar:
  "tahmin_dongu H M c e acc = Inr ts \<Longrightarrow> r \<in> set ts \<Longrightarrow>
   r \<in> set acc \<or> (\<exists>d. r = gun_tahmini M d \<and> \<not> resmi_tatil_mi H d)"
proof (induction H M c e acc arbitrary: ts rule: tahmin_dongu.induct)
  case (1 H M c e acc)
  let ?acc' = "if \<not> resmi_tatil_mi H c then acc @ [gun_tahmini M c] else acc"
  show ?case
  proof (cases "c \<le> e")
    case False
    with "1.prems" show ?thesis by (simp add: tahmin_dongu.simps [of H M c e acc])
  next
    case True
    show ?thesis
    proof (cases "gun_ekle c")
      case (Inl err)
      with True "1.prems" show ?thesis by (simp add: tahmin_dongu.simps [of H M c e acc] Let_def)
    next
      case (Inr n)
      with True "1.prems" have "tahmin_dongu H M n e ?acc' = Inr ts"
        by (simp add: tahmin_dongu.simps [of H M c e acc] Let_def)
      with "1.IH" [OF True refl Inr] "1.prems"(2)
      have "r \<in> set ?acc' \<or> (\<exists>d. r = gun_tahmini M d \<and> \<not> resmi_tatil_mi H d)" by blast
      then show ?thesis by (auto split: if_splits)
    qed
  qed
qed

lemma gun_araligi_15_18:
  "{d. gecerli d \<and> Tarih 2024 3 15 \<le> d \<and> d \<le> Tarih 2024 3 18 \<and> \<not> resmi_tatil_mi (\<lambda>_. []) d} =
   {Tarih 2024 3 15, Tarih 2024 3 18}"
proof (rule set_eqI)
  fix d
  show "d \<in> {d. gecerli d \<and> Tarih 2024 3 15 \<le> d \<and> d \<le> Tarih 2024 3 18 \<and> \<not> resmi_tatil_mi (\<lambda>_. []) d} \<longleftrightarrow>
        d \<in> {Tarih 2024 3 15, Tarih 2024 3 18}"
  proof (cases d)
    case (Tarih y m g)
    have "Tarih 2024 3 15 \<le> d \<and> d \<le> Tarih 2024 3 18 \<longleftrightarrow>
          y = 2024 \<and> m = 3 \<and> (g = 15 \<or> g = 16 \<or> g = 17 \<or> g = 18)"
      using Tarih by (auto simp: tarih_le_iff)
    then show ?thesis using Tarih by (auto simp: eval_simps)
  qed
qed

text \<open>Whatever \<open>tahmin_et\<close> returns is the optimiser's records of increasing valid business days.\<close>

lemma tahmin_et_Inr:
  assumes "tahmin_et H M baslangic bitis tolerans_aktif = Inr ts"
  shows "\<exists>ds. ts = map (gun_tahmini M) ds \<and> sorted_wrt (<) ds \<and>
           (\<forall>d\<in>set ds. gecerli d \<and> \<not> resmi_tatil_mi H d)"
proof -
  obtain s e where s: "strptime fmt_Ymd baslangic = Inr s" and e: "strptime fmt_Ymd bitis = Inr e"
    and r: "tahmin_dongu H M s e [] = Inr ts"
    using assms by (auto simp: tahmin_et_def split: sum.splits)
  note vs = strptime_gecerli [OF s] and ve = strptime_gecerli [OF e]
  have "e \<noteq> Tarih 9999 12 31"
    using r tahmin_dongu_tasma [OF vs, of e H M "[]"] by auto
  then show ?thesis using tahmin_dongu_aralik [OF vs ve, of H M "[]"] r by auto
qed

text \<open>A one-day range with the scenario's models, computed.\<close>

lemma tahmin_dongu_tek_gun:
  assumes "gecerli d" "d \<noteq> Tarih 9999 12 31" "\<not> resmi_tatil_mi H d"
  shows "tahmin_dongu H M d d [] = Inr [gun_tahmini M d]"
proof -
  have ekle: "gun_ekle d = Inr (sonraki_gun d)" using gun_ekle_gecerli [OF assms(1)] assms(2) by simp
  have "\<not> sonraki_gun d \<le> d" using sonraki_gun_greater [of d] by simp
  then have "tahmin_dongu H M (sonraki_gun d) d [gun_tahmini M d] = Inr [gun_tahmini M d]"
    by (simp add: tahmin_dongu.simps [of H M "sonraki_gun d"])
  then show ?thesis using ekle assms(3) by (simp add: tahmin_dongu.simps [of H M d d] Let_def)
qed

lemma tahmin_et_tek_gun:
  assumes "strptime fmt_Ymd b = Inr d" "d \<noteq> Tarih 9999 12 31" "\<not> resmi_tatil_mi H d"
  shows "tahmin_et H M b b tolerans_aktif = Inr [gun_tahmini M d]"
  using assms tahmin_dongu_tek_gun [OF strptime_gecerli [OF assms(1)] assms(2,3)]
  by (simp add: tahmin_et_def)

lemma tek_gun_ornegi:
  "tahmin_et (\<lambda>_. []) senaryo_modelleri ''2024-03-15'' ''2024-03-15'' False =
   Inr [gun_tahmini senaryo_modelleri (Tarih 2024 3 15)]"
  by (rule tahmin_et_tek_gun) (simp_all add: eval_simps)

section \<open>Properties of \<open>tahmin_et\<close>\<close>

text \<open>
  C6. For two range ends that parse, the end not being 9999-12-31, \<open>tahmin_et\<close> returns
  the optimiser's records of exactly the dates of the range that are neither weekend days
  nor holidays, each once, in increasing order of date.
\<close>

theorem tahmin_et_is_gunleri:
  assumes "strptime fmt_Ymd baslangic = Inr s" and "strptime fmt_Ymd bitis = Inr e"
    and "e \<noteq> Tarih 9999 12 31"
  shows "\<exists>ds. tahmin_et H M baslangic bitis tolerans_aktif = Inr (map (gun_tahmini M) ds) \<and>
           sorted_wrt (<) ds \<and>
           set ds = {d. gecerli d \<and> s \<le> d \<and> d \<le> e \<and> \<not> resmi_tatil_mi H d}"
  using tahmin_dongu_aralik [OF strptime_gecerli [OF assms(1)] strptime_gecerli [OF assms(2)] assms(3),
      of H M "[]"] assms(1,2)
  by (simp add: tahmin_et_def)

text \<open>
  C7. A reversed range (end before start) is not rejected: \<open>tahmin_et\<close> returns the
  empty list, where the specification asks for a configuration error.
\<close>

theorem tahmin_et_ters_aralik:
  assumes "strptime fmt_Ymd baslangic = Inr s" and "strptime fmt_Ymd bitis = Inr e" and "e < s"
  shows "tahmin_et H M baslangic bitis tolerans_aktif = Inr []"
proof -
  have "\<not> s \<le> e" using assms(3) by simp
  with assms(1,2) show ?thesis
    by (simp add: tahmin_et_def tahmin_dongu.simps [of H M s e "[]"])
qed

text \<open>
  C8. An end date of 9999-12-31 makes \<open>tahmin_et\<close> fail with OverflowError: after the
  last day is processed, \<open>mevcut_tarih += timedelta(days=1)\<close> leaves the range of
  \<open>datetime\<close> before the loop condition is tested again.
\<close>

theorem tahmin_et_tasma:
  assumes "strptime fmt_Ymd baslangic = Inr s" and "strptime fmt_Ymd bitis = Inr (Tarih 9999 12 31)"
  shows "tahmin_et H M baslangic bitis tolerans_aktif = Inl (OverflowError ''date value out of range'')"
  using assms tahmin_dongu_tasma [OF strptime_gecerli [OF assms(1)] refl, of H M "[]"]
  by (simp add: tahmin_et_def)

theorem tahmin_et_is_gunleri_witness:
  "tahmin_et (\<lambda>_. []) senaryo_modelleri ''2024-03-15'' ''2024-03-18'' False =
   Inr [gun_tahmini senaryo_modelleri (Tarih 2024 3 15), gun_tahmini senaryo_modelleri (Tarih 2024 3 18)]"
proof -
  have p1: "strptime fmt_Ymd ''2024-03-15'' = Inr (Tarih 2024 3 15)"
    and p2: "strptime fmt_Ymd ''2024-03-18'' = Inr (Tarih 2024 3 18)"
    and ne: "Tarih 2024 3 18 \<noteq> Tarih 9999 12 31"
    by (simp_all add: eval_simps)
  obtain ds where r: "tahmin_et (\<lambda>_. []) senaryo_modelleri ''2024-03-15'' ''2024-03-18'' False =
      Inr (map (gun_tahmini senaryo_modelleri) ds)"
    and s: "sorted_wrt (<) ds"
    and st: "set ds = {Tarih 2024 3 15, Tarih 2024 3 18}"
    using tahmin_et_is_gunleri [OF p1 p2 ne, of "\<lambda>_. []" senaryo_modelleri False]
    unfolding gun_araligi_15_18 by blast
  have "ds = sorted_list_of_set (set ds)"
    using s by (simp add: strict_sorted_iff sorted_list_of_set.idem_if_sorted_distinct)
  also have "\<dots> = [Tarih 2024 3 15, Tarih 2024 3 18]"
    unfolding st by (simp add: tarih_le_iff)
  finally show ?thesis using r by simp
qed

theorem tahmin_et_ters_aralik_witness:
  "tahmin_et (\<lambda>_. []) senaryo_modelleri ''2024-03-18'' ''2024-03-15'' False = Inr []"
proof -
  have "strptime fmt_Ymd ''2024-03-18'' = Inr (Tarih 2024 3 18)"
    and "strptime fmt_Ymd ''2024-03-15'' = Inr (Tarih 2024 3 15)"
    and "Tarih 2024 3 15 < Tarih 2024 3 18"
    by (simp_all add: eval_simps)
  then show ?thesis by (rule tahmin_et_ters_aralik)
qed

theorem tahmin_et_tasma_witness:
  "tahmin_et (\<lambda>_. []) senaryo_modelleri ''9999-12-30'' ''9999-12-31'' False =
   Inl (OverflowError ''date value out of range'')"
proof -
  have "strptime fmt_Ymd ''9999-12-30'' = Inr (Tarih 9999 12 30)"
    and "strptime fmt_Ymd ''9999-12-31'' = Inr (Tarih 9999 12 31)"
    by (simp_all add: eval_simps)
  then show ?thesis by (rule tahmin_et_tasma)
qed


end
