(* ===== verification/Dataset.thy ===== *)
theory Dataset
  imports Optimizer
begin

text \<open>
  Dataset preparation and training: \<open>load_and_prepare_data\<close> (\<open>src/app.py\<close>, lines
  14--25) and \<open>egit_modeller\<close> (lines 27--41). Reading the CSV file is I/O and is not
  modelled: the input is the data frame \<open>pd.read_csv\<close> returns, one row per line, whose
  date column holds integers when every cell of the column is numeric (pandas' type
  inference) and strings otherwise. \<open>astype(str)\<close> prints an integer cell without its
  leading zeros. \<open>pd.to_datetime(..., format="%d%m%Y", errors='coerce')\<close> applies the
  regular expressions of \<open>strptime\<close>, turns every failure into \<open>NaT\<close>, and also turns
  dates outside the range of a nanosecond \<open>Timestamp\<close> (1677-09-21 00:12:43 to
  2262-04-11 23:47:16) into \<open>NaT\<close>; \<open>dropna\<close> removes those rows. The holiday object
  \<open>holidays.Turkey(years=[2022, 2023, 2024])\<close> is created with \<open>expand=True\<close> (the
  package's default), so a date of any other year is looked up in that year's holidays.
  A fitted \<open>RandomForestRegressor\<close> is modelled by a training function \<open>egit\<close>
  (features and targets to a predictor), a parameter: the forest itself is a library.
  scikit-learn rejects an empty feature matrix with a \<open>ValueError\<close>.
\<close>

section \<open>Raw rows\<close>

text \<open>
  A cell of the date column as \<open>read_csv\<close> types it: \<open>Sayi\<close> in an \<open>int64\<close> column (all
  cells numeric), \<open>Kesirli\<close> and \<open>NaN\<close> in a \<open>float64\<close> column (all cells numeric, some
  missing; the numeric cells hold integral values), \<open>Metin\<close> in an \<open>object\<close> column.
\<close>

datatype hucre = Sayi int | Kesirli int | NaN | Metin string

text \<open>A row of the data frame, columns \<open>Tarih\<close> and the four counts. The counts are
  integers: the model covers a CSV whose count columns are complete and numeric. A missing
  count makes pandas read its column as floats holding \<open>NaN\<close>, which scikit-learn
  rejects when training; that input is not represented.\<close>

record ham_satir =
  h_tarih :: hucre
  h_davet :: int
  h_teyit :: int
  h_teyit_yok :: int
  h_katilim :: int

text \<open>\<open>df['Tarih'].astype(str)\<close>, one cell (\<open>str()\<close> of an integral float below
  \<open>10^16\<close> ends in \<open>.0\<close>).\<close>

fun astype_str :: "hucre \<Rightarrow> string" where
  "astype_str (Sayi n) = py_str n"
| "astype_str (Kesirli n) = py_str n @ ''.0''"
| "astype_str NaN = ''nan''"
| "astype_str (Metin s) = s"

text \<open>The dates whose midnight is a nanosecond \<open>Timestamp\<close> (from 1677-09-21 00:12:43 to
  2262-04-11 23:47:16): 1677-09-22 to 2262-04-11.\<close>

definition ns_araliginda :: "tarih \<Rightarrow> bool" where
  "ns_araliginda t \<longleftrightarrow> Tarih 1677 9 22 \<le> t \<and> t \<le> Tarih 2262 4 11"

text \<open>\<open>pd.to_datetime(s, format="%d%m%Y", errors='coerce')\<close>: \<open>None\<close> is \<open>NaT\<close>.\<close>

definition pd_to_datetime_dmY :: "string \<Rightarrow> tarih option" where
  "pd_to_datetime_dmY s =
     (case strptime fmt_dmY s of
        Inl _ \<Rightarrow> None
      | Inr t \<Rightarrow> if ns_araliginda t then Some t else None)"

section \<open>Holidays with expansion\<close>

text \<open>A \<open>HolidayBase\<close> object: the years it was created for and its \<open>expand\<close> flag.\<close>

record tatil_nesnesi =
  yillar :: "int list"
  genislet :: bool

definition turkey :: "int list \<Rightarrow> tatil_nesnesi" where
  "turkey ys = \<lparr>yillar = ys, genislet = True\<rparr>"

text \<open>\<open>x in tr_holidays\<close>: with \<open>expand\<close>, the year of \<open>x\<close> is populated on demand.\<close>

definition tatil_icinde :: "tatil_takvimi \<Rightarrow> tatil_nesnesi \<Rightarrow> tarih \<Rightarrow> bool" where
  "tatil_icinde H h x \<longleftrightarrow>
     (yil x \<in> set (yillar h) \<or> genislet h) \<and> x \<in> set (H (yil x))"

section \<open>Prepared rows\<close>

text \<open>A row after lines 16--23: the parsed date, the counts and the four features.\<close>

record satir =
  s_tarih :: tarih
  s_davet :: int
  s_teyit :: int
  s_teyit_yok :: int
  s_katilim :: int
  s_gun :: int
  s_ay :: int
  s_hafta :: int
  s_tatil :: int

text \<open>Lines 19--23 for one row whose date parsed.\<close>

definition satir_hazirla :: "tatil_takvimi \<Rightarrow> tatil_nesnesi \<Rightarrow> ham_satir \<Rightarrow> tarih \<Rightarrow> satir" where
  "satir_hazirla H tr_holidays r x =
     \<lparr>s_tarih = x, s_davet = h_davet r, s_teyit = h_teyit r, s_teyit_yok = h_teyit_yok r,
      s_katilim = h_katilim r, s_gun = weekday x, s_ay = ay x, s_hafta = iso_hafta x,
      s_tatil = (if 5 \<le> weekday x \<or> tatil_icinde H tr_holidays x then 1 else 0)\<rparr>"

text \<open>Lines 14--25: parse, drop the \<open>NaT\<close> rows, derive the features.\<close>

definition load_and_prepare_data :: "tatil_takvimi \<Rightarrow> ham_satir list \<Rightarrow> satir list" where
  "load_and_prepare_data H df =
     (let tr_holidays = turkey [2022, 2023, 2024]
      in concat (map (\<lambda>r. case pd_to_datetime_dmY (astype_str (h_tarih r)) of
                             None \<Rightarrow> []
                           | Some x \<Rightarrow> [satir_hazirla H tr_holidays r x]) df))"

section \<open>Training\<close>

text \<open>\<open>RandomForestRegressor(n_estimators=100, random_state=42).fit(X, y)\<close>: a function.\<close>

type_synonym egitici = "ozellik list \<Rightarrow> real list \<Rightarrow> (ozellik \<Rightarrow> real)"

text \<open>Line 29: \<open>X = df[['Gun', 'Ay', 'Hafta', 'Tatil']]\<close>, one row.\<close>

definition ozellik_satiri :: "satir \<Rightarrow> ozellik" where
  "ozellik_satiri s = \<lparr>f_gun = s_gun s, f_ay = s_ay s, f_hafta = s_hafta s, f_tatil = s_tatil s\<rparr>"

text \<open>Lines 27--41: four regressors fitted on the same features, one per target column.\<close>

definition egit_modeller :: "egitici \<Rightarrow> satir list \<Rightarrow> modeller sonuc" where
  "egit_modeller egit df =
     (let X = map ozellik_satiri df
      in if X = [] then Inl (ValueError ''Found array with 0 sample(s)'')
         else Inr \<lparr>model_davet = egit X (map (of_int \<circ> s_davet) df),
                   model_teyit = egit X (map (of_int \<circ> s_teyit) df),
                   model_teyit_yok = egit X (map (of_int \<circ> s_teyit_yok) df),
                   model_katilim = egit X (map (of_int \<circ> s_katilim) df)\<rparr>)"

text \<open>
  Sample inputs: the scenario of \<open>spec.md\<close> (section 8) with \<open>ddmmyyyy\<close> strings, one
  of them an impossible date, and a float-typed column with a missing cell.
\<close>

definition ham :: "hucre \<Rightarrow> ham_satir" where
  "ham c = \<lparr>h_tarih = c, h_davet = 100, h_teyit = 90, h_teyit_yok = 10, h_katilim = 85\<rparr>"

definition ornek_veri :: "ham_satir list" where
  "ornek_veri = map (ham \<circ> Metin) [''13032023'', ''14032023'', ''31022023'', ''15032023'']"

definition eksik_veri :: "ham_satir list" where
  "eksik_veri = [ham (Kesirli 13032023), ham NaN, ham (Kesirli 15032023)]"

definition sabit_egitici :: egitici where
  "sabit_egitici X ys = (\<lambda>_. sum_list ys / of_nat (length ys))"

declare pd_to_datetime_dmY_def [eval_simps] ns_araliginda_def [eval_simps] turkey_def [eval_simps] tatil_icinde_def [eval_simps]
  satir_hazirla_def [eval_simps] load_and_prepare_data_def [eval_simps]
  ozellik_satiri_def [eval_simps] egit_modeller_def [eval_simps] ham_def [eval_simps]


section \<open>Properties of the preparation\<close>

lemma desen_eslestir_bol:
  "desen_eslestir p s = Some (w, r) \<Longrightarrow> s = w @ r \<and> (\<forall>c\<in>set w. \<exists>k\<in>set p. sinif_uyar k c)"
  by (induction p s arbitrary: w rule: desen_eslestir.induct) (fastforce split: if_splits)+

lemma eslesmeler_yabanci:
  assumes "(gs, r) \<in> set (eslesmeler fs s)"
    and "\<forall>y\<in>set fs. \<forall>p\<in>set (alternatifler y). \<forall>k\<in>set p. \<not> sinif_uyar k x"
    and "x \<in> set s"
  shows "x \<in> set r"
  using assms
proof (induction fs arbitrary: gs s)
  case Nil
  then show ?case by simp
next
  case (Cons y ys)
  from Cons.prems(1) obtain p w r0 gs' where p: "p \<in> set (alternatifler y)"
    and m: "desen_eslestir p s = Some (w, r0)" and rest: "(gs', r) \<in> set (eslesmeler ys r0)"
    by (auto split: option.splits) (metis)
  from desen_eslestir_bol [OF m] have "s = w @ r0" "\<forall>c\<in>set w. \<exists>k\<in>set p. sinif_uyar k c" by auto
  with Cons.prems(2,3) p have "x \<in> set r0" by auto
  then show ?case using Cons.IH [OF rest] Cons.prems(2) by simp
qed

lemma strptime_yabanci:
  assumes "\<forall>y\<in>set fmt. \<forall>p\<in>set (alternatifler y). \<forall>k\<in>set p. \<not> sinif_uyar k x" and "x \<in> set s"
  shows "\<exists>e. strptime fmt s = Inl e"
proof (cases "eslesmeler fmt s")
  case Nil
  then show ?thesis by (simp add: strptime_def)
next
  case (Cons m ms)
  obtain gs r where "m = (gs, r)" by (cases m)
  with Cons have "x \<in> set r" using eslesmeler_yabanci [OF _ assms] by (metis list.set_intros(1))
  then show ?thesis using Cons \<open>m = (gs, r)\<close> by (auto simp: strptime_def)
qed

lemma pd_to_datetime_yabanci:
  "CHR ''.'' \<in> set s \<or> CHR ''n'' \<in> set s \<Longrightarrow> pd_to_datetime_dmY s = None"
proof -
  have "\<forall>y\<in>set fmt_dmY. \<forall>p\<in>set (alternatifler y). \<forall>k\<in>set p. \<not> sinif_uyar k CHR ''.''"
    "\<forall>y\<in>set fmt_dmY. \<forall>p\<in>set (alternatifler y). \<forall>k\<in>set p. \<not> sinif_uyar k CHR ''n''"
    by (simp_all add: eval_simps)
  moreover assume "CHR ''.'' \<in> set s \<or> CHR ''n'' \<in> set s"
  ultimately obtain e where "strptime fmt_dmY s = Inl e"
    using strptime_yabanci [of fmt_dmY] by blast
  then show ?thesis by (simp add: pd_to_datetime_dmY_def ns_araliginda_def)
qed

lemma kesirli_ayristirilmaz: "c \<in> range Kesirli \<union> {NaN} \<Longrightarrow> pd_to_datetime_dmY (astype_str c) = None"
  by (auto intro: pd_to_datetime_yabanci)

lemma load_and_prepare_data_Cons:
  "load_and_prepare_data H (r # df) =
   (case pd_to_datetime_dmY (astype_str (h_tarih r)) of
      None \<Rightarrow> [] | Some x \<Rightarrow> [satir_hazirla H (turkey [2022, 2023, 2024]) r x]) @ load_and_prepare_data H df"
  by (simp add: load_and_prepare_data_def Let_def)

lemma load_and_prepare_data_Nil: "load_and_prepare_data H [] = []"
  by (simp add: load_and_prepare_data_def)

lemma tatil_icinde_turkey: "tatil_icinde H (turkey ys) x \<longleftrightarrow> x \<in> set (H (yil x))"
  by (simp add: tatil_icinde_def turkey_def)

lemma pd_to_datetime_Some:
  "pd_to_datetime_dmY s = Some x \<Longrightarrow> gecerli x \<and> Tarih 1677 9 22 \<le> x \<and> x \<le> Tarih 2262 4 11"
  by (auto simp: pd_to_datetime_dmY_def ns_araliginda_def split: sum.splits if_splits dest: strptime_gecerli)

lemma s_tarih_satir_hazirla [simp]: "s_tarih (satir_hazirla H h r x) = x"
  by (simp add: satir_hazirla_def)

lemma load_and_prepare_data_mem:
  "s \<in> set (load_and_prepare_data H df) \<Longrightarrow>
   \<exists>r\<in>set df. pd_to_datetime_dmY (astype_str (h_tarih r)) = Some (s_tarih s) \<and>
     s = satir_hazirla H (turkey [2022, 2023, 2024]) r (s_tarih s)"
  by (induction df) (auto simp: load_and_prepare_data_Nil load_and_prepare_data_Cons satir_hazirla_def
      split: option.splits)

text \<open>
  C10. Every row that \<open>load_and_prepare_data\<close> keeps has a valid date inside the range of a
  nanosecond \<open>Timestamp\<close>, and calendar features in the ranges of \<open>spec.md\<close> (section 3):
  weekday 0--6, month 1--12, ISO week 1--53; its \<open>Tatil\<close> flag is exactly
  \<open>resmi_tatil_mi\<close> of its date, although the holiday object was created for the years
  2022--2024 only (\<open>expand=True\<close> fills in the other years).
\<close>

theorem load_and_prepare_data_ozellikler:
  assumes "s \<in> set (load_and_prepare_data H df)"
  shows "gecerli (s_tarih s) \<and> Tarih 1677 9 22 \<le> s_tarih s \<and> s_tarih s \<le> Tarih 2262 4 11 \<and>
         0 \<le> s_gun s \<and> s_gun s \<le> 6 \<and> 1 \<le> s_ay s \<and> s_ay s \<le> 12 \<and>
         1 \<le> s_hafta s \<and> s_hafta s \<le> 53 \<and>
         s_tatil s = (if resmi_tatil_mi H (s_tarih s) then 1 else 0)"
proof -
  obtain r where p: "pd_to_datetime_dmY (astype_str (h_tarih r)) = Some (s_tarih s)"
    and s: "s = satir_hazirla H (turkey [2022, 2023, 2024]) r (s_tarih s)"
    using load_and_prepare_data_mem [OF assms] by blast
  note v = pd_to_datetime_Some [OF p]
  have "1 \<le> ay (s_tarih s) \<and> ay (s_tarih s) \<le> 12" using v by (cases "s_tarih s") simp
  moreover have "s_gun s = weekday (s_tarih s)" "s_ay s = ay (s_tarih s)" "s_hafta s = iso_hafta (s_tarih s)"
    "s_tatil s = (if resmi_tatil_mi H (s_tarih s) then 1 else 0)"
    by (subst s; simp add: satir_hazirla_def tatil_icinde_turkey resmi_tatil_mi_def)+
  ultimately show ?thesis using v weekday_bounds iso_hafta_bounds [of "s_tarih s"] by simp
qed

text \<open>
  C11. For a training row whose date is a business day, the feature vector the models are
  trained on equals the feature vector \<open>tahmin_et\<close> builds for the same date when it
  forecasts (where \<open>Tatil\<close> is forced to 0).
\<close>

theorem egitim_tahmin_ozellikleri:
  assumes "s \<in> set (load_and_prepare_data H df)" and "\<not> resmi_tatil_mi H (s_tarih s)"
  shows "ozellik_satiri s = gun_ozellikleri (s_tarih s)"
proof -
  obtain r where s: "s = satir_hazirla H (turkey [2022, 2023, 2024]) r (s_tarih s)"
    using load_and_prepare_data_mem [OF assms(1)] by blast
  show ?thesis using assms(2)
    by (subst s, subst (2) s) (simp add: satir_hazirla_def ozellik_satiri_def gun_ozellikleri_def
        tatil_icinde_turkey resmi_tatil_mi_def)
qed

text \<open>
  C12. \<open>load_and_prepare_data\<close> keeps exactly the input rows whose date parses, in input
  order, each with its own counts and its parsed date (\<open>spec.md\<close>, section 4.2: output
  order matches input order minus dropped rows).
\<close>

theorem load_and_prepare_data_sira:
  "\<exists>ks. sorted_wrt (<) ks \<and>
        set ks = {i. i < length df \<and> pd_to_datetime_dmY (astype_str (h_tarih (df ! i))) \<noteq> None} \<and>
        load_and_prepare_data H df =
          map (\<lambda>i. satir_hazirla H (turkey [2022, 2023, 2024]) (df ! i)
                      (the (pd_to_datetime_dmY (astype_str (h_tarih (df ! i)))))) ks"
proof (induction df)
  case Nil
  then show ?case by (intro exI [of _ "[]"]) (simp add: load_and_prepare_data_Nil)
next
  case (Cons r df)
  then obtain ks where ks: "sorted_wrt (<) ks"
    "set ks = {i. i < length df \<and> pd_to_datetime_dmY (astype_str (h_tarih (df ! i))) \<noteq> None}"
    "load_and_prepare_data H df =
       map (\<lambda>i. satir_hazirla H (turkey [2022, 2023, 2024]) (df ! i)
                   (the (pd_to_datetime_dmY (astype_str (h_tarih (df ! i)))))) ks" by blast
  have kaydir: "{i. i < length (r # df) \<and> pd_to_datetime_dmY (astype_str (h_tarih ((r # df) ! i))) \<noteq> None} =
      (if pd_to_datetime_dmY (astype_str (h_tarih r)) \<noteq> None then {0} else {}) \<union> Suc ` set ks"
    unfolding ks(2) by (rule indeks_kumesi_Cons)
  show ?case
  proof (cases "pd_to_datetime_dmY (astype_str (h_tarih r))")
    case None
    then show ?thesis using ks kaydir
      by (intro exI [of _ "map Suc ks"]) (simp add: load_and_prepare_data_Cons sorted_wrt_map o_def)
  next
    case (Some x)
    then show ?thesis using ks kaydir
      by (intro exI [of _ "0 # map Suc ks"]) (simp add: load_and_prepare_data_Cons sorted_wrt_map o_def)
  qed
qed

text \<open>
  C13. A date written \<open>ddmmyyyy\<close> with leading zeros, as \<open>spec.md\<close> (section 6) describes the
  dataset, is parsed back to itself by \<open>pd.to_datetime(..., format="%d%m%Y")\<close>, for every valid
  date inside the \<open>Timestamp\<close> range.
\<close>

theorem pd_to_datetime_dmY_yaz:
  assumes "gecerli t" and "Tarih 1677 9 22 \<le> t" and "t \<le> Tarih 2262 4 11"
  shows "pd_to_datetime_dmY (sifir_doldur 2 (gun t) @ sifir_doldur 2 (ay t) @ sifir_doldur 4 (yil t)) = Some t"
  using assms strptime_dmY [of "yil t" "ay t" "gun t"] by (cases t) (simp add: pd_to_datetime_dmY_def ns_araliginda_def)

text \<open>
  C14. When the date column is read as integers (every cell numeric), \<open>astype(str)\<close> drops
  the leading zero of a day 1--9 and \<open>%d%m%Y\<close> re-splits the seven digits: for every
  day digit 1--3, month 1--9 and four-digit year, the integer cell of \<open>0d0myyyy\<close> keeps
  the row with the date day \<open>10 * d\<close> of that month (dropping the row when that date is
  invalid or outside the \<open>Timestamp\<close> range), while the string cell of the same text keeps
  it with day \<open>d\<close>.
\<close>

theorem tamsayi_sutun_kaymasi:
  assumes "d \<in> {1, 2, 3}" "1 \<le> m" "m \<le> 9" "1000 \<le> y" "y \<le> 9999"
  shows "map s_tarih (load_and_prepare_data H [r\<lparr>h_tarih := Sayi (d * 1000000 + m * 10000 + y)\<rparr>]) =
           (if gecerli (Tarih y m (10 * d)) \<and> ns_araliginda (Tarih y m (10 * d)) then [Tarih y m (10 * d)] else []) \<and>
         map s_tarih (load_and_prepare_data H
             [r\<lparr>h_tarih := Metin (sifir_doldur 2 d @ sifir_doldur 2 m @ sifir_doldur 4 y)\<rparr>]) =
           (if ns_araliginda (Tarih y m d) then [Tarih y m d] else [])"
proof -
  have "gecerli (Tarih y m d)" using assms days_in_month_bounds [of m y]
    by (auto simp: MAXYEAR_def)
  then show ?thesis using strptime_yedi_hane [OF assms] strptime_dmY [of y m d]
    by (simp add: load_and_prepare_data_Cons load_and_prepare_data_Nil pd_to_datetime_dmY_def)
qed

text \<open>
  C15. When the date column is read as floats (a cell is missing), every cell prints with a
  \<open>.0\<close> suffix or as \<open>nan\<close>, no date parses, every row is dropped and training fails with
  scikit-learn's \<open>ValueError\<close>.
\<close>

theorem eksik_tarih_egitim_hatasi:
  assumes "\<forall>r\<in>set df. h_tarih r \<in> range Kesirli \<union> {NaN}"
  shows "load_and_prepare_data H df = [] \<and>
         egit_modeller egit (load_and_prepare_data H df) = Inl (ValueError ''Found array with 0 sample(s)'')"
proof -
  have "load_and_prepare_data H df = []"
    using assms by (induction df) (simp_all add: load_and_prepare_data_Nil load_and_prepare_data_Cons
        kesirli_ayristirilmaz)
  then show ?thesis by (simp add: egit_modeller_def)
qed


lemma ornek_veri_hazir:
  "load_and_prepare_data (\<lambda>_. []) ornek_veri =
     [satir_hazirla (\<lambda>_. []) (turkey [2022, 2023, 2024]) (ham (Metin ''13032023'')) (Tarih 2023 3 13),
      satir_hazirla (\<lambda>_. []) (turkey [2022, 2023, 2024]) (ham (Metin ''14032023'')) (Tarih 2023 3 14),
      satir_hazirla (\<lambda>_. []) (turkey [2022, 2023, 2024]) (ham (Metin ''15032023'')) (Tarih 2023 3 15)]"
  by (simp add: ornek_veri_def load_and_prepare_data_Cons load_and_prepare_data_Nil ham_def
      del: satir_hazirla_def) (simp add: eval_simps del: satir_hazirla_def)

theorem load_and_prepare_data_ozellikler_witness:
  "gecerli (Tarih 2023 3 15) \<and> 1 \<le> s_hafta (satir_hazirla (\<lambda>_. []) (turkey [2022, 2023, 2024])
      (ham (Metin ''15032023'')) (Tarih 2023 3 15)) \<and>
   s_hafta (satir_hazirla (\<lambda>_. []) (turkey [2022, 2023, 2024])
      (ham (Metin ''15032023'')) (Tarih 2023 3 15)) \<le> 53"
  using load_and_prepare_data_ozellikler [of "satir_hazirla (\<lambda>_. []) (turkey [2022, 2023, 2024])
      (ham (Metin ''15032023'')) (Tarih 2023 3 15)" "\<lambda>_. []" ornek_veri]
  by (simp add: ornek_veri_hazir del: satir_hazirla_def)

theorem egitim_tahmin_ozellikleri_witness:
  "ozellik_satiri (satir_hazirla (\<lambda>_. []) (turkey [2022, 2023, 2024]) (ham (Metin ''15032023''))
     (Tarih 2023 3 15)) = gun_ozellikleri (Tarih 2023 3 15)"
proof -
  have "\<not> resmi_tatil_mi (\<lambda>_. []) (Tarih 2023 3 15)" by (simp add: eval_simps)
  then show ?thesis
    using egitim_tahmin_ozellikleri [of "satir_hazirla (\<lambda>_. []) (turkey [2022, 2023, 2024])
      (ham (Metin ''15032023'')) (Tarih 2023 3 15)" "\<lambda>_. []" ornek_veri]
    by (simp add: ornek_veri_hazir del: satir_hazirla_def)
qed

theorem pd_to_datetime_dmY_yaz_witness:
  "pd_to_datetime_dmY (sifir_doldur 2 1 @ sifir_doldur 2 3 @ sifir_doldur 4 2023) = Some (Tarih 2023 3 1)"
proof -
  have "gecerli (Tarih 2023 3 1)" "Tarih 1677 9 22 \<le> Tarih 2023 3 1" "Tarih 2023 3 1 \<le> Tarih 2262 4 11"
    by (simp_all add: eval_simps)
  then show ?thesis using pd_to_datetime_dmY_yaz [of "Tarih 2023 3 1"] by simp
qed

theorem tamsayi_sutun_kaymasi_witness:
  "map s_tarih (load_and_prepare_data (\<lambda>_. []) [ham (Sayi 1032023)]) = [Tarih 2023 3 10] \<and>
   map s_tarih (load_and_prepare_data (\<lambda>_. []) [ham (Metin ''01032023'')]) = [Tarih 2023 3 1]"
proof -
  have "gecerli (Tarih 2023 3 10) \<and> ns_araliginda (Tarih 2023 3 10)" "ns_araliginda (Tarih 2023 3 1)"
    "sifir_doldur 2 1 @ sifir_doldur 2 3 @ sifir_doldur 4 2023 = ''01032023''"
    by (simp_all add: eval_simps)
  then show ?thesis using tamsayi_sutun_kaymasi [of 1 3 2023 "\<lambda>_. []" "ham NaN"] by (simp add: ham_def)
qed

theorem eksik_tarih_egitim_hatasi_witness:
  "load_and_prepare_data (\<lambda>_. []) eksik_veri = [] \<and>
   egit_modeller sabit_egitici (load_and_prepare_data (\<lambda>_. []) eksik_veri) =
     Inl (ValueError ''Found array with 0 sample(s)'')"
proof -
  have "\<forall>r\<in>set eksik_veri. h_tarih r \<in> range Kesirli \<union> {NaN}"
    by (simp add: eksik_veri_def ham_def)
  then show ?thesis using eksik_tarih_egitim_hatasi by blast
qed

end
