(* ===== verification/Uygulama.thy ===== *)
theory Uygulama
  imports Forecast Dataset
begin

text \<open>
  The presentation layer of \<open>src/app.py\<close>: the chart data of \<open>grafik_uret\<close> (lines
  102--140) and the two Flask handlers \<open>index\<close> (lines 142--162) and \<open>indir\<close> (lines
  164--174), which share the module-level variable \<open>son_tahminler\<close> (line 12).
  \<^item> \<open>grafik_verisi\<close> is what \<open>grafik_uret\<close> computes before drawing: the data frame of
    the forecast records sorted by their parsed date (\<open>pd.to_datetime\<close> on the
    \<open>%Y-%m-%d\<close> strings, modelled by \<open>strptime\<close> and the range check of a nanosecond
    \<open>Timestamp\<close>; an unparsable string or a date after 2262-04-11 raises), the
    cumulative attendance (\<open>cumsum\<close>), the room utilisation (attendance / 45) and the bar
    labels (\<open>strftime("%d-%m")\<close>). The PNG images and their base64 text are not modelled;
    an empty frame gives \<open>None\<close>. Sorting is \<open>sort_key\<close>, a stable sort; pandas'
    default quicksort is not stable, which makes no difference for distinct dates.
  \<^item> The module state is the record \<open>uygulama\<close> (the list \<open>son_tahminler\<close>); the
    environment \<open>ortam\<close> holds what the handlers read but never change: the CSV rows, the
    holiday calendar and the trainer. \<open>istek_isle\<close> answers one request and returns the
    new state; an exception inside \<open>index\<close> becomes Flask's 500 response and leaves the
    global unassigned, since line 159 is not reached.
  \<^item> \<open>ulasilir\<close> is the set of states reachable from the initial state by any sequence of
    requests, and \<open>calistir\<close> runs an explicit sequence of requests.
\<close>

section \<open>Chart data\<close>

text \<open>\<open>pd.to_datetime\<close> on a column: every cell parsed, the first failure raised.\<close>

fun hepsi :: "'a sonuc list \<Rightarrow> 'a list sonuc" where
  "hepsi [] = Inr []"
| "hepsi (Inl e # xs) = Inl e"
| "hepsi (Inr x # xs) = (case hepsi xs of Inl e \<Rightarrow> Inl e | Inr ys \<Rightarrow> Inr (x # ys))"

text \<open>\<open>pandas.errors.OutOfBoundsDatetime\<close>, a subclass of \<open>ValueError\<close>; its message
  goes on with the offending date, which the model leaves out.\<close>

definition sinir_disi :: hata where
  "sinir_disi = ValueError ''Out of bounds nanosecond timestamp''"

text \<open>Line 108, one cell: \<open>pd.to_datetime\<close> without a format reads the \<open>%Y-%m-%d\<close>
  text and builds a nanosecond \<open>Timestamp\<close>, which fails outside 1677-09-22 to
  2262-04-11 (\<open>errors="raise"\<close>, the default).\<close>

definition pd_to_datetime_Ymd :: "string \<Rightarrow> tarih sonuc" where
  "pd_to_datetime_Ymd s =
     (case strptime fmt_Ymd s of
        Inl e \<Rightarrow> Inl e
      | Inr t \<Rightarrow> if ns_araliginda t then Inr t else Inl sinir_disi)"

text \<open>\<open>Series.cumsum()\<close>, with the running total as a parameter.\<close>

fun kumulatif :: "int \<Rightarrow> int list \<Rightarrow> int list" where
  "kumulatif acc [] = []"
| "kumulatif acc (x # xs) = (acc + x) # kumulatif (acc + x) xs"

record grafik =
  g_tarih :: "tarih list"
  g_davet :: "int list"
  g_teyit :: "int list"
  g_katilim :: "int list"
  g_kumulatif :: "int list"
  g_kullanim :: "real list"
  g_etiket :: "string list"

text \<open>Lines 103--111, 120--122, 128 and 133: the series the three charts plot.\<close>

definition grafik_verisi :: "gunluk_tahmin list \<Rightarrow> grafik option sonuc" where
  "grafik_verisi tahminler =
     (if tahminler = [] then Inr None
      else case hepsi (map (\<lambda>r. pd_to_datetime_Ymd (t_tarih r)) tahminler) of
        Inl e \<Rightarrow> Inl e
      | Inr ds \<Rightarrow>
          (let df = sort_key fst (zip ds tahminler);
               katilim = map (t_katilim \<circ> snd) df
           in Inr (Some \<lparr>g_tarih = map fst df, g_davet = map (t_davet \<circ> snd) df,
                         g_teyit = map (t_teyit \<circ> snd) df, g_katilim = katilim,
                         g_kumulatif = kumulatif 0 katilim,
                         g_kullanim = map (\<lambda>k. of_int k / 45) katilim,
                         g_etiket = map (\<lambda>d. sifir_doldur 2 (gun d) @ ''-'' @ sifir_doldur 2 (ay d))
                                      (map fst df)\<rparr>)))"

section \<open>The handlers\<close>

record ortam =
  o_veri :: "ham_satir list"
  o_tatil :: tatil_takvimi
  o_egitici :: egitici

record uygulama =
  son_tahminler :: "gunluk_tahmin list"

text \<open>Requests: \<open>GET /\<close>, \<open>POST /\<close> with its form (\<open>request.form\<close>, a dictionary from
  field names to the first value sent), and \<open>GET /indir\<close>.\<close>

datatype istek = Index_GET | Index_POST "string \<rightharpoonup> string" | Indir_GET

text \<open>Responses: the rendered page (its forecast table, the selected range and the chart
  data), the Excel file of the given records, a plain-text answer with its status, and
  the 400 answer of a missing form field (\<open>BadRequestKeyError\<close>) and the 500 answer of any
  other uncaught exception.\<close>

datatype yanit =
    Sayfa "gunluk_tahmin list" "(string \<times> string) option" "grafik option"
  | Excel "gunluk_tahmin list"
  | Duz_metin string nat
  | Hatali_istek
  | Sunucu_hatasi hata

text \<open>The UTF-8 bytes of the message of line 167 ("Henuz tahmin yapilmadi." with a u-umlaut and two dotless i).\<close>

definition henuz_yok :: string where
  "henuz_yok = ''Hen'' @ [CHR 0xC3, CHR 0xBC] @ ''z tahmin yap'' @ [CHR 0xC4, CHR 0xB1] @ ''lmad'' @
     [CHR 0xC4, CHR 0xB1] @ ''.''"

text \<open>Lines 149--159: load, train, forecast, chart, then assign the global.\<close>

definition index_post ::
  "ortam \<Rightarrow> uygulama \<Rightarrow> string \<Rightarrow> string \<Rightarrow> string option \<Rightarrow> yanit \<times> uygulama"
where
  "index_post env st baslangic bitis tolerans =
     (let tolerans_aktif = (tolerans = Some ''yes'');
          df = load_and_prepare_data (o_tatil env) (o_veri env)
      in case egit_modeller (o_egitici env) df of
           Inl e \<Rightarrow> (Sunucu_hatasi e, st)
         | Inr M \<Rightarrow>
             (case tahmin_et (o_tatil env) M baslangic bitis tolerans_aktif of
                Inl e \<Rightarrow> (Sunucu_hatasi e, st)
              | Inr tahminler \<Rightarrow>
                  (case grafik_verisi tahminler of
                     Inl e \<Rightarrow> (Sunucu_hatasi e, st)
                   | Inr g \<Rightarrow> (Sayfa tahminler (Some (baslangic, bitis)) g,
                               st\<lparr>son_tahminler := tahminler\<rparr>))))"

text \<open>Lines 149--152: \<open>request.form["start_date"]\<close> and \<open>request.form["end_date"]\<close>
  raise when the field is missing; \<open>request.form.get("tolerans")\<close> does not.\<close>

definition index_form :: "ortam \<Rightarrow> uygulama \<Rightarrow> (string \<rightharpoonup> string) \<Rightarrow> yanit \<times> uygulama" where
  "index_form env st form =
     (case form ''start_date'' of
        None \<Rightarrow> (Hatali_istek, st)
      | Some baslangic \<Rightarrow>
          (case form ''end_date'' of
             None \<Rightarrow> (Hatali_istek, st)
           | Some bitis \<Rightarrow> index_post env st baslangic bitis (form ''tolerans'')))"

text \<open>Lines 164--174: the download reads the global.\<close>

definition indir :: "uygulama \<Rightarrow> yanit" where
  "indir st = (if son_tahminler st = [] then Duz_metin henuz_yok 400 else Excel (son_tahminler st))"

text \<open>One request of the Flask application.\<close>

fun istek_isle :: "ortam \<Rightarrow> uygulama \<Rightarrow> istek \<Rightarrow> yanit \<times> uygulama" where
  "istek_isle env st Index_GET = (Sayfa [] None None, st)"
| "istek_isle env st (Index_POST form) = index_form env st form"
| "istek_isle env st Indir_GET = (indir st, st)"

text \<open>Line 12: the state when the module is loaded.\<close>

definition ilk_durum :: uygulama where
  "ilk_durum = \<lparr>son_tahminler = []\<rparr>"

inductive ulasilir :: "ortam \<Rightarrow> uygulama \<Rightarrow> bool" for env where
  ilk: "ulasilir env ilk_durum"
| adim: "ulasilir env st \<Longrightarrow> istek_isle env st q = (y, st') \<Longrightarrow> ulasilir env st'"

text \<open>A sequence of requests, answered in order; the responses in order and the final state.\<close>

fun calistir :: "ortam \<Rightarrow> uygulama \<Rightarrow> istek list \<Rightarrow> yanit list \<times> uygulama" where
  "calistir env st [] = ([], st)"
| "calistir env st (q # qs) =
     (let (y, st') = istek_isle env st q; (ys, st'') = calistir env st' qs in (y # ys, st''))"

text \<open>The forecast of the last successful \<open>POST\<close> among the responses, if any.\<close>

fun son_sayfa :: "yanit list \<Rightarrow> gunluk_tahmin list option" where
  "son_sayfa [] = None"
| "son_sayfa (y # ys) =
     (case son_sayfa ys of
        Some ts \<Rightarrow> Some ts
      | None \<Rightarrow> (case y of Sayfa ts (Some _) _ \<Rightarrow> Some ts | _ \<Rightarrow> None))"

text \<open>The environment of the witnesses: the sample dataset, no holidays, a trainer that
  predicts the mean of its targets.\<close>

definition form_verisi :: "string \<Rightarrow> string \<Rightarrow> string option \<Rightarrow> (string \<rightharpoonup> string)" where
  "form_verisi b e t = (\<lambda>k. if k = ''start_date'' then Some b else if k = ''end_date'' then Some e
                           else if k = ''tolerans'' then t else None)"

definition ornek_ortam :: ortam where
  "ornek_ortam = \<lparr>o_veri = ornek_veri, o_tatil = (\<lambda>_. []), o_egitici = sabit_egitici\<rparr>"

declare grafik_verisi_def [eval_simps] pd_to_datetime_Ymd_def [eval_simps] sinir_disi_def [eval_simps] henuz_yok_def [eval_simps] index_post_def [eval_simps]
  index_form_def [eval_simps] form_verisi_def [eval_simps]
  indir_def [eval_simps] ilk_durum_def [eval_simps] ornek_ortam_def [eval_simps]


section \<open>Properties of the presentation layer\<close>

lemma hepsi_map_Inr: "hepsi (map Inr xs) = Inr xs"
  by (induction xs) simp_all

lemma kumulatif_son: "xs \<noteq> [] \<Longrightarrow> last (kumulatif a xs) = a + sum_list xs"
proof (induction xs arbitrary: a)
  case (Cons x xs)
  then show ?case by (cases xs) simp_all
qed simp

lemma t_tarih_gun_tahmini [simp]: "t_tarih (gun_tahmini M d) = tarih_yaz d"
  by (simp add: gun_tahmini_def Let_def)

lemma hepsi_Inl:
  "Inl e \<in> set xs \<Longrightarrow> \<forall>x\<in>set xs. x = Inl e \<or> (\<exists>y. x = Inr y) \<Longrightarrow> hepsi xs = Inl e"
proof (induction xs rule: hepsi.induct)
  case (3 x xs)
  then show ?case by (auto split: sum.splits)
qed auto

lemma hepsi_Inr: "hepsi xs = Inr ys \<Longrightarrow> y \<in> set ys \<Longrightarrow> Inr y \<in> set xs"
  by (induction xs arbitrary: ys rule: hepsi.induct) (auto split: sum.splits)

lemma pd_to_datetime_Ymd_Inr: "pd_to_datetime_Ymd s = Inr t \<Longrightarrow> gecerli t \<and> ns_araliginda t"
  by (auto simp: pd_to_datetime_Ymd_def split: sum.splits if_splits dest: strptime_gecerli)

lemma pd_to_datetime_Ymd_yaz:
  "gecerli d \<Longrightarrow> pd_to_datetime_Ymd (tarih_yaz d) = (if ns_araliginda d then Inr d else Inl sinir_disi)"
  by (simp add: pd_to_datetime_Ymd_def strptime_tarih_yaz)

lemma grafik_verisi_sirali:
  assumes "ts = map (gun_tahmini M) ds" "sorted_wrt (<) ds" "\<forall>d\<in>set ds. gecerli d \<and> ns_araliginda d"
    "ts \<noteq> []"
  shows "grafik_verisi ts =
    Inr (Some \<lparr>g_tarih = ds, g_davet = map t_davet ts, g_teyit = map t_teyit ts,
               g_katilim = map t_katilim ts, g_kumulatif = kumulatif 0 (map t_katilim ts),
               g_kullanim = map (\<lambda>r. of_int (t_katilim r) / 45) ts,
               g_etiket = map (\<lambda>d. sifir_doldur 2 (gun d) @ ''-'' @ sifir_doldur 2 (ay d)) ds\<rparr>)"
proof -
  have p: "map (\<lambda>r. pd_to_datetime_Ymd (t_tarih r)) ts = map Inr ds"
    using assms(1,3) by (simp add: pd_to_datetime_Ymd_yaz)
  have "sorted (map fst (zip ds ts))"
    using assms(1,2) by (simp add: strict_sorted_iff)
  then have s: "sort_key fst (zip ds ts) = zip ds ts" by (rule sort_key_id_if_sorted)
  have l: "length ds = length ts" using assms(1) by simp
  show ?thesis
    using assms(4) l unfolding grafik_verisi_def p hepsi_map_Inr
    by (simp add: s Let_def o_def map_zip_snd map_zip_fst
        map_zip_snd [OF l, of "\<lambda>r. of_int (t_katilim r) / 45"]
        map_zip_fst [OF l, of "\<lambda>d. sifir_doldur 2 (gun d) @ CHR ''-'' # sifir_doldur 2 (ay d)"])
qed

lemma index_form_verisi [simp]:
  "index_form env st (form_verisi b e t) = index_post env st b e t"
  by (simp add: index_form_def form_verisi_def)

lemma ulasilir_son_tahminler:
  "ulasilir env st \<Longrightarrow> son_tahminler st = [] \<or>
   (\<exists>M b e tol. egit_modeller (o_egitici env) (load_and_prepare_data (o_tatil env) (o_veri env)) = Inr M \<and>
                tahmin_et (o_tatil env) M b e tol = Inr (son_tahminler st))"
proof (induction rule: ulasilir.induct)
  case ilk
  then show ?case by (simp add: ilk_durum_def)
next
  case (adim st q y st')
  then show ?case
    by (cases q) (auto simp: index_form_def index_post_def Let_def split: sum.splits option.splits)
qed

lemma istek_isle_durum:
  "istek_isle env st q = (y, st') \<Longrightarrow>
   (st' = st \<and> son_sayfa [y] = None) \<or> (\<exists>ts. son_sayfa [y] = Some ts \<and> st' = st\<lparr>son_tahminler := ts\<rparr>)"
  by (cases q) (auto simp: index_form_def index_post_def indir_def Let_def split: sum.splits option.splits)

text \<open>
  C18. After any sequence of requests, the global \<open>son_tahminler\<close> holds the forecast of the
  last \<open>POST\<close> that rendered a page, or its earlier value when none did: \<open>GET\<close>
  requests, downloads and failed \<open>POST\<close>s leave it unchanged.
\<close>

theorem calistir_son_tahminler:
  "son_tahminler (snd (calistir env st qs)) =
   (case son_sayfa (fst (calistir env st qs)) of None \<Rightarrow> son_tahminler st | Some ts \<Rightarrow> ts)"
proof (induction qs arbitrary: st)
  case Nil
  then show ?case by simp
next
  case (Cons q qs)
  obtain y st' where q: "istek_isle env st q = (y, st')" by fastforce
  show ?case
    using istek_isle_durum [OF q] Cons.IH [of st'] q
    by (auto simp: Let_def split: prod.splits option.splits)
qed

lemma indir_Excel:
  assumes "ulasilir env st" and "indir st = Excel rs"
  shows "rs = son_tahminler st \<and>
         (\<exists>M ds. egit_modeller (o_egitici env) (load_and_prepare_data (o_tatil env) (o_veri env)) = Inr M \<and>
           rs = map (gun_tahmini M) ds \<and> ds \<noteq> [] \<and> sorted_wrt (<) ds \<and>
           (\<forall>d\<in>set ds. gecerli d \<and> \<not> resmi_tatil_mi (o_tatil env) d))"
proof -
  have rs: "rs = son_tahminler st" "son_tahminler st \<noteq> []"
    using assms(2) by (simp_all add: indir_def split: if_splits)
  then obtain M b e tol where
    M: "egit_modeller (o_egitici env) (load_and_prepare_data (o_tatil env) (o_veri env)) = Inr M"
    and t: "tahmin_et (o_tatil env) M b e tol = Inr rs"
    using ulasilir_son_tahminler [OF assms(1)] by auto
  then show ?thesis using tahmin_et_Inr [OF t] rs by auto
qed

lemma tahmin_et_aralik:
  assumes "tahmin_et H M baslangic bitis tolerans_aktif = Inr ts"
    and "strptime fmt_Ymd baslangic = Inr s" and "strptime fmt_Ymd bitis = Inr e"
  shows "\<exists>ds. ts = map (gun_tahmini M) ds \<and> sorted_wrt (<) ds \<and>
           set ds = {d. gecerli d \<and> s \<le> d \<and> d \<le> e \<and> \<not> resmi_tatil_mi H d}"
proof -
  have r: "tahmin_dongu H M s e [] = Inr ts" using assms by (simp add: tahmin_et_def)
  note vs = strptime_gecerli [OF assms(2)] and ve = strptime_gecerli [OF assms(3)]
  have "e \<noteq> Tarih 9999 12 31" using r tahmin_dongu_tasma [OF vs, of e H M "[]"] by auto
  then show ?thesis using tahmin_dongu_aralik [OF vs ve, of H M "[]"] r by auto
qed

lemma tahmin_et_ns:
  assumes "tahmin_et H M baslangic bitis tolerans_aktif = Inr ts"
    and "strptime fmt_Ymd baslangic = Inr s" and "strptime fmt_Ymd bitis = Inr e"
    and "ns_araliginda s" and "ns_araliginda e"
  shows "\<exists>ds. ts = map (gun_tahmini M) ds \<and> sorted_wrt (<) ds \<and>
           (\<forall>d\<in>set ds. gecerli d \<and> ns_araliginda d \<and> \<not> resmi_tatil_mi H d)"
proof -
  obtain ds where ds: "ts = map (gun_tahmini M) ds" "sorted_wrt (<) ds"
      "set ds = {d. gecerli d \<and> s \<le> d \<and> d \<le> e \<and> \<not> resmi_tatil_mi H d}"
    using tahmin_et_aralik [OF assms(1-3)] by blast
  have "ns_araliginda d" if "d \<in> set ds" for d
    using that ds(3) assms(4,5) by (auto simp: ns_araliginda_def)
  then show ?thesis using ds by auto
qed

lemma etiket_esit:
  assumes "gecerli a" "gecerli b"
  shows "sifir_doldur 2 (gun a) @ ''-'' @ sifir_doldur 2 (ay a) = sifir_doldur 2 (gun b) @ ''-'' @ sifir_doldur 2 (ay b)
    \<longleftrightarrow> gun a = gun b \<and> ay a = ay b"
proof -
  have "0 \<le> gun x \<and> gun x < 10 ^ 2 \<and> 0 \<le> ay x \<and> ay x < 10 ^ 2" if "gecerli x" for x
    using that gecerli_alanlar [of "yil x" "ay x" "gun x"] by (cases x) auto
  then have l: "length (sifir_doldur 2 (gun a)) = length (sifir_doldur 2 (gun b))"
    and d: "0 \<le> gun a" "0 \<le> gun b" "0 \<le> ay a" "0 \<le> ay b"
    using assms sifir_doldur_uzunluk [of "gun a" 2] sifir_doldur_uzunluk [of "gun b" 2] by auto
  have "sifir_doldur 2 (gun a) = sifir_doldur 2 (gun b) \<Longrightarrow> gun a = gun b"
    using sifir_doldur_degeri [OF d(1), of 2] sifir_doldur_degeri [OF d(2), of 2] by metis
  moreover have "sifir_doldur 2 (ay a) = sifir_doldur 2 (ay b) \<Longrightarrow> ay a = ay b"
    using sifir_doldur_degeri [OF d(3), of 2] sifir_doldur_degeri [OF d(4), of 2] by metis
  ultimately show ?thesis using append_eq_append_conv [OF disjI1 [OF l]] by auto
qed

text \<open>
  C17. In every state reachable from the module's start by any sequence of requests, an Excel
  download holds the non-empty result of a completed forecast: the optimiser records, for
  the models trained on the dataset, of strictly increasing valid business days.
\<close>

theorem indir_guvenli:
  assumes "ulasilir env st" and "indir st = Excel rs"
  shows "\<exists>M ds. egit_modeller (o_egitici env) (load_and_prepare_data (o_tatil env) (o_veri env)) = Inr M \<and>
           rs = map (gun_tahmini M) ds \<and> ds \<noteq> [] \<and> sorted_wrt (<) ds \<and>
           (\<forall>d\<in>set ds. gecerli d \<and> \<not> resmi_tatil_mi (o_tatil env) d)"
  using indir_Excel [OF assms] by blast

text \<open>
  C16. For a non-empty result of \<open>tahmin_et\<close> on a range whose ends lie in the range of a
  nanosecond \<open>Timestamp\<close>, \<open>grafik_uret\<close> succeeds, its sorting by parsed date keeps the
  forecast order (the \<open>%Y-%m-%d\<close> strings parse back to their dates), the cumulative
  series ends at the total expected attendance, and the utilisation series is the
  attendance over 45.
\<close>

theorem grafik_tahmin_et:
  assumes "tahmin_et H M baslangic bitis tolerans_aktif = Inr ts" and "ts \<noteq> []"
    and "strptime fmt_Ymd baslangic = Inr s" and "strptime fmt_Ymd bitis = Inr e"
    and "ns_araliginda s" and "ns_araliginda e"
  shows "\<exists>g. grafik_verisi ts = Inr (Some g) \<and> sorted_wrt (<) (g_tarih g) \<and>
           map tarih_yaz (g_tarih g) = map t_tarih ts \<and> g_katilim g = map t_katilim ts \<and>
           last (g_kumulatif g) = sum_list (map t_katilim ts) \<and>
           g_kullanim g = map (\<lambda>r. of_int (t_katilim r) / 45) ts"
proof -
  obtain ds where ds: "ts = map (gun_tahmini M) ds" "sorted_wrt (<) ds"
      "\<forall>d\<in>set ds. gecerli d \<and> ns_araliginda d"
    using tahmin_et_ns [OF assms(1,3-6)] by blast
  show ?thesis
    using grafik_verisi_sirali [OF ds assms(2)] ds(1,2) assms(2)
    by (simp add: kumulatif_son o_def)
qed

lemma ornek_egitim:
  "egit_modeller sabit_egitici (load_and_prepare_data (\<lambda>_. []) ornek_veri) = Inr senaryo_modelleri"
  by (simp add: ornek_veri_hazir egit_modeller_def sabit_egitici_def senaryo_modelleri_def
      satir_hazirla_def ozellik_satiri_def ham_def)

lemma tahmin_et_tolerans: "tahmin_et H M b e t = tahmin_et H M b e False"
  by (simp add: tahmin_et_def)

lemma tek_gun_grafik:
  "\<exists>g. grafik_verisi [gun_tahmini senaryo_modelleri (Tarih 2024 3 15)] = Inr (Some g)"
proof -
  have "gecerli (Tarih 2024 3 15)" "ns_araliginda (Tarih 2024 3 15)" by (simp_all add: eval_simps)
  then show ?thesis using grafik_verisi_sirali [of _ senaryo_modelleri "[Tarih 2024 3 15]"] by simp
qed

lemma ornek_post:
  "\<exists>g. index_post ornek_ortam st ''2024-03-15'' ''2024-03-15'' t =
     (Sayfa [gun_tahmini senaryo_modelleri (Tarih 2024 3 15)] (Some (''2024-03-15'', ''2024-03-15'')) g,
      st\<lparr>son_tahminler := [gun_tahmini senaryo_modelleri (Tarih 2024 3 15)]\<rparr>)"
  using tek_gun_grafik
  by (auto simp: index_post_def ornek_ortam_def ornek_egitim Let_def tek_gun_ornegi
      tahmin_et_tolerans [of _ _ _ _ "t = Some ''yes''"])

text \<open>The state after one successful \<open>POST\<close> of the sample environment is reachable.\<close>

lemma ornek_ulasilir:
  "ulasilir ornek_ortam (ilk_durum\<lparr>son_tahminler := [gun_tahmini senaryo_modelleri (Tarih 2024 3 15)]\<rparr>)"
proof -
  obtain g where "istek_isle ornek_ortam ilk_durum (Index_POST (form_verisi ''2024-03-15'' ''2024-03-15'' None)) =
      (Sayfa [gun_tahmini senaryo_modelleri (Tarih 2024 3 15)] (Some (''2024-03-15'', ''2024-03-15'')) g,
       ilk_durum\<lparr>son_tahminler := [gun_tahmini senaryo_modelleri (Tarih 2024 3 15)]\<rparr>)"
    using ornek_post by auto
  then show ?thesis by (rule ulasilir.adim [OF ulasilir.ilk])
qed

theorem indir_guvenli_witness:
  "\<exists>M ds. egit_modeller sabit_egitici (load_and_prepare_data (\<lambda>_. []) ornek_veri) = Inr M \<and>
      [gun_tahmini senaryo_modelleri (Tarih 2024 3 15)] = map (gun_tahmini M) ds \<and> ds \<noteq> [] \<and>
      sorted_wrt (<) ds \<and> (\<forall>d\<in>set ds. gecerli d \<and> \<not> resmi_tatil_mi (\<lambda>_. []) d)"
proof -
  let ?st = "ilk_durum\<lparr>son_tahminler := [gun_tahmini senaryo_modelleri (Tarih 2024 3 15)]\<rparr>"
  note u = ornek_ulasilir
  have i: "indir ?st = Excel [gun_tahmini senaryo_modelleri (Tarih 2024 3 15)]"
    by (simp add: indir_def)
  show ?thesis using indir_guvenli [OF u i] by (simp add: ornek_ortam_def)
qed

theorem grafik_tahmin_et_witness:
  "\<exists>g. grafik_verisi [gun_tahmini senaryo_modelleri (Tarih 2024 3 15)] = Inr (Some g) \<and>
      sorted_wrt (<) (g_tarih g) \<and>
      map tarih_yaz (g_tarih g) = map t_tarih [gun_tahmini senaryo_modelleri (Tarih 2024 3 15)] \<and>
      g_katilim g = [t_katilim (gun_tahmini senaryo_modelleri (Tarih 2024 3 15))] \<and>
      last (g_kumulatif g) = t_katilim (gun_tahmini senaryo_modelleri (Tarih 2024 3 15)) \<and>
      g_kullanim g = [of_int (t_katilim (gun_tahmini senaryo_modelleri (Tarih 2024 3 15))) / 45]"
proof -
  have p: "strptime fmt_Ymd ''2024-03-15'' = Inr (Tarih 2024 3 15)"
    and n: "ns_araliginda (Tarih 2024 3 15)" by (simp_all add: eval_simps)
  show ?thesis using grafik_tahmin_et [OF tek_gun_ornegi _ p p n n] by simp
qed

text \<open>
  C20. From any state, a \<open>POST\<close> of a one-day range whose date is a business day in the
  range of a nanosecond \<open>Timestamp\<close>, with a dataset the trainer accepts, renders that
  day's forecast and makes it the next download.
\<close>

theorem index_post_ilerleme:
  assumes "egit_modeller (o_egitici env) (load_and_prepare_data (o_tatil env) (o_veri env)) = Inr M"
    and "strptime fmt_Ymd b = Inr d" and "ns_araliginda d" and "\<not> resmi_tatil_mi (o_tatil env) d"
    and "form ''start_date'' = Some b" and "form ''end_date'' = Some b"
  shows "\<exists>g st'. istek_isle env st (Index_POST form) = (Sayfa [gun_tahmini M d] (Some (b, b)) g, st') \<and>
           indir st' = Excel [gun_tahmini M d]"
proof -
  have "d \<noteq> Tarih 9999 12 31" using assms(3) by (auto simp: ns_araliginda_def tarih_le_iff)
  then have ts: "tahmin_et (o_tatil env) M b b (form ''tolerans'' = Some ''yes'') = Inr [gun_tahmini M d]"
    using tahmin_et_tek_gun [OF assms(2) _ assms(4)] by blast
  have "gecerli d" using strptime_gecerli [OF assms(2)] .
  then obtain g where "grafik_verisi [gun_tahmini M d] = Inr g"
    using grafik_verisi_sirali [of "[gun_tahmini M d]" M "[d]"] assms(3) by auto
  then show ?thesis using assms(1,5,6) ts by (simp add: index_form_def index_post_def indir_def Let_def)
qed

theorem index_post_ilerleme_witness:
  "\<exists>g st'. istek_isle ornek_ortam ilk_durum (Index_POST (form_verisi ''2024-03-15'' ''2024-03-15'' None)) =
      (Sayfa [gun_tahmini senaryo_modelleri (Tarih 2024 3 15)] (Some (''2024-03-15'', ''2024-03-15'')) g, st') \<and>
    indir st' = Excel [gun_tahmini senaryo_modelleri (Tarih 2024 3 15)]"
proof -
  have p: "strptime fmt_Ymd ''2024-03-15'' = Inr (Tarih 2024 3 15)"
    and h: "\<not> resmi_tatil_mi (o_tatil ornek_ortam) (Tarih 2024 3 15)"
    and n: "ns_araliginda (Tarih 2024 3 15)" by (simp_all add: eval_simps)
  have e: "egit_modeller (o_egitici ornek_ortam)
      (load_and_prepare_data (o_tatil ornek_ortam) (o_veri ornek_ortam)) = Inr senaryo_modelleri"
    by (simp add: ornek_ortam_def ornek_egitim)
  show ?thesis by (rule index_post_ilerleme [OF e p n h]) (simp_all add: form_verisi_def)
qed





text \<open>
  C24. The bars of the utilisation chart are labelled \<open>strftime("%d-%m")\<close> (line 133),
  without the year: for every chart \<open>grafik_uret\<close> draws, two bars get the same label
  exactly when their dates have the same day and month, so the same day of two years
  shares one label, and matplotlib's categorical axis draws the two on one bar position.
\<close>

theorem grafik_etiket_esitligi:
  assumes "grafik_verisi ts = Inr (Some g)" and "i < length (g_tarih g)" and "j < length (g_tarih g)"
  shows "g_etiket g ! i = g_etiket g ! j \<longleftrightarrow>
           gun (g_tarih g ! i) = gun (g_tarih g ! j) \<and> ay (g_tarih g ! i) = ay (g_tarih g ! j)"
proof -
  obtain ds where h: "hepsi (map (\<lambda>r. pd_to_datetime_Ymd (t_tarih r)) ts) = Inr ds"
    and t: "g_tarih g = map fst (sort_key fst (zip ds ts))"
    and e: "g_etiket g = map (\<lambda>d. sifir_doldur 2 (gun d) @ ''-'' @ sifir_doldur 2 (ay d)) (g_tarih g)"
    using assms(1) by (auto simp: grafik_verisi_def Let_def split: if_splits sum.splits)
  have "gecerli d" if "d \<in> set (g_tarih g)" for d
  proof -
    have "d \<in> set ds" using that t by (auto dest: set_zip_leftD)
    then show ?thesis using hepsi_Inr [OF h] pd_to_datetime_Ymd_Inr by fastforce
  qed
  then show ?thesis using assms(2,3) e etiket_esit by simp
qed

theorem grafik_etiket_esitligi_witness:
  "\<exists>g. grafik_verisi [gun_tahmini senaryo_modelleri (Tarih 2024 3 15), gun_tahmini senaryo_modelleri (Tarih 2025 3 15)] =
       Inr (Some g) \<and> g_tarih g = [Tarih 2024 3 15, Tarih 2025 3 15] \<and> g_etiket g ! 0 = g_etiket g ! 1"
proof -
  have "gecerli (Tarih 2024 3 15)" "gecerli (Tarih 2025 3 15)" "Tarih 2024 3 15 < Tarih 2025 3 15"
    "ns_araliginda (Tarih 2024 3 15)" "ns_araliginda (Tarih 2025 3 15)"
    by (simp_all add: eval_simps)
  then obtain g where g: "grafik_verisi [gun_tahmini senaryo_modelleri (Tarih 2024 3 15),
      gun_tahmini senaryo_modelleri (Tarih 2025 3 15)] = Inr (Some g)"
    and t: "g_tarih g = [Tarih 2024 3 15, Tarih 2025 3 15]"
    using grafik_verisi_sirali [of _ senaryo_modelleri "[Tarih 2024 3 15, Tarih 2025 3 15]"] by fastforce
  have "g_etiket g ! 0 = g_etiket g ! 1" using grafik_etiket_esitligi [OF g, of 0 1] t by simp
  then show ?thesis using g t by blast
qed

text \<open>
  C25. A \<open>POST\<close> whose range contains a business day after 2262-04-11 (or before
  1677-09-22) is forecast by \<open>tahmin_et\<close>, but \<open>grafik_uret\<close> then fails on
  \<open>pd.to_datetime\<close> (line 108) with \<open>OutOfBoundsDatetime\<close>: the answer is a 500 and the
  global keeps its earlier value.
\<close>

theorem index_post_sinir_disi:
  assumes "egit_modeller (o_egitici env) (load_and_prepare_data (o_tatil env) (o_veri env)) = Inr M"
    and "tahmin_et (o_tatil env) M baslangic bitis (tolerans = Some ''yes'') = Inr ts"
    and "strptime fmt_Ymd baslangic = Inr s" and "strptime fmt_Ymd bitis = Inr e"
    and "gecerli d" and "s \<le> d" and "d \<le> e" and "\<not> resmi_tatil_mi (o_tatil env) d"
    and "\<not> ns_araliginda d"
  shows "index_post env st baslangic bitis tolerans = (Sunucu_hatasi sinir_disi, st)"
proof -
  obtain ds where ds: "ts = map (gun_tahmini M) ds"
      "set ds = {d. gecerli d \<and> s \<le> d \<and> d \<le> e \<and> \<not> resmi_tatil_mi (o_tatil env) d}"
    using tahmin_et_aralik [OF assms(2-4)] by blast
  have d: "d \<in> set ds" using ds(2) assms(5-8) by simp
  have "hepsi (map (\<lambda>r. pd_to_datetime_Ymd (t_tarih r)) ts) = Inl sinir_disi"
  proof (rule hepsi_Inl)
    show "Inl sinir_disi \<in> set (map (\<lambda>r. pd_to_datetime_Ymd (t_tarih r)) ts)"
      using d ds(1) assms(5,9) pd_to_datetime_Ymd_yaz [of d] by force
    show "\<forall>x\<in>set (map (\<lambda>r. pd_to_datetime_Ymd (t_tarih r)) ts). x = Inl sinir_disi \<or> (\<exists>y. x = Inr y)"
      using ds pd_to_datetime_Ymd_yaz by auto
  qed
  moreover have "ts \<noteq> []" using d ds(1) by auto
  ultimately have "grafik_verisi ts = Inl sinir_disi" by (simp add: grafik_verisi_def)
  then show ?thesis using assms(1,2) by (simp add: index_post_def Let_def)
qed

theorem index_post_sinir_disi_witness:
  "index_post ornek_ortam ilk_durum ''2263-01-05'' ''2263-01-05'' None = (Sunucu_hatasi sinir_disi, ilk_durum)"
proof -
  have p: "strptime fmt_Ymd ''2263-01-05'' = Inr (Tarih 2263 1 5)"
    and v: "gecerli (Tarih 2263 1 5)"
    and h: "\<not> resmi_tatil_mi (o_tatil ornek_ortam) (Tarih 2263 1 5)"
    and n: "\<not> ns_araliginda (Tarih 2263 1 5)"
    and m: "Tarih 2263 1 5 \<noteq> Tarih 9999 12 31" by (simp_all add: eval_simps)
  have e: "egit_modeller (o_egitici ornek_ortam)
      (load_and_prepare_data (o_tatil ornek_ortam) (o_veri ornek_ortam)) = Inr senaryo_modelleri"
    by (simp add: ornek_ortam_def ornek_egitim)
  have t: "tahmin_et (o_tatil ornek_ortam) senaryo_modelleri ''2263-01-05'' ''2263-01-05'' (None = Some ''yes'') =
      Inr [gun_tahmini senaryo_modelleri (Tarih 2263 1 5)]"
    by (rule tahmin_et_tek_gun [OF p m h])
  show ?thesis by (rule index_post_sinir_disi [OF e t p p v order_refl order_refl h n])
qed

end
