(* ===== verification/Aktarim.thy ===== *)
theory Aktarim
  imports Uygulama
begin

text \<open>
  The contents of the Excel file of \<open>indir\<close> (\<open>src/app.py\<close>, lines 169--174):
  \<open>pd.DataFrame(son_tahminler)\<close> takes its columns from the keys of the records in their
  insertion order (lines 87--94), and \<open>df.to_excel(writer, index=False,
  sheet_name="Tahminler")\<close> writes one header row of the column names and one row per
  record, strings as text cells and integers as number cells, without an index column.
  The file is sent as \<open>tahminler.xlsx\<close>. The xlsx container (zip, XML) written by
  \<open>xlsxwriter\<close> is not modelled: the sheet is a record of its name, header and rows.
  No property is stated of the sheet: a round trip would need a reader, which the program
  does not have; what the download holds is stated of \<open>indir\<close> in \<open>Uygulama\<close>.
\<close>

datatype excel_hucresi = Yazi string | Sayi_hucresi int

record tablo =
  sayfa_adi :: string
  basliklar :: "string list"
  satirlar :: "excel_hucresi list list"

text \<open>The keys of lines 88--93 in UTF-8: \<open>"G\<close>u-umlaut\<open>n"\<close> and
  \<open>"S\<close>dotless-i\<open>nava Kat\<close>dotless-i\<open>lacak"\<close>.\<close>

definition sutunlar :: "string list" where
  "sutunlar = [''Tarih'', ''G'' @ [CHR 0xC3, CHR 0xBC] @ ''n'', ''Davet Edilen'', ''Teyit Veren'',
     ''Teyit Vermeyen'', ''S'' @ [CHR 0xC4, CHR 0xB1] @ ''nava Kat'' @ [CHR 0xC4, CHR 0xB1] @ ''lacak'']"

text \<open>One row of the sheet: the values of a record in column order.\<close>

definition excel_satiri :: "gunluk_tahmin \<Rightarrow> excel_hucresi list" where
  "excel_satiri r = [Yazi (t_tarih r), Yazi (t_gun r), Sayi_hucresi (t_davet r), Sayi_hucresi (t_teyit r),
     Sayi_hucresi (t_teyit_vermeyen r), Sayi_hucresi (t_katilim r)]"

text \<open>Lines 169--172: the sheet \<open>Tahminler\<close> of the records.\<close>

definition excel_tablosu :: "gunluk_tahmin list \<Rightarrow> tablo" where
  "excel_tablosu tahminler =
     \<lparr>sayfa_adi = ''Tahminler'', basliklar = sutunlar, satirlar = map excel_satiri tahminler\<rparr>"

text \<open>Line 174: the name of the download.\<close>

definition dosya_adi :: string where
  "dosya_adi = ''tahminler.xlsx''"

end
