(* ===== verification/Dongu.thy ===== *)
theory Dongu
  imports Forecast "HOL-Library.While_Combinator"
begin

text \<open>
  The loop of \<open>tahmin_et\<close> (\<open>src/app.py\<close>, lines 55--96) written as the Python
  \<open>while\<close> statement it is: a state of the two loop variables \<open>mevcut_tarih\<close> and
  \<open>tahmin_sonuclari\<close>, the guard \<open>mevcut_tarih <= bitis\<close>, and the body, run by
  \<open>while_option\<close> of \<open>HOL-Library.While_Combinator\<close>, whose value \<open>None\<close> would be a
  loop that never stops. An exception of the body (the OverflowError of line 96) ends the
  loop: it is the state \<open>Inl\<close>, on which the guard is false. The theorem of this theory
  shows that this loop stops on every input and computes what the recursive
  \<open>tahmin_dongu\<close> of \<open>Forecast\<close> computes, so the properties proved of
  \<open>tahmin_dongu\<close> are properties of the loop as written.
\<close>

type_synonym dongu_durumu = "(tarih \<times> gunluk_tahmin list) sonuc"

text \<open>Line 56: \<open>while mevcut_tarih <= bitis\<close>; a raised exception leaves the loop.\<close>

definition dongu_kosulu :: "tarih \<Rightarrow> dongu_durumu \<Rightarrow> bool" where
  "dongu_kosulu bitis s = (case s of Inr (mevcut_tarih, _) \<Rightarrow> mevcut_tarih \<le> bitis | Inl _ \<Rightarrow> False)"

text \<open>Lines 57--96: one pass of the body.\<close>

definition dongu_govdesi :: "tatil_takvimi \<Rightarrow> modeller \<Rightarrow> dongu_durumu \<Rightarrow> dongu_durumu" where
  "dongu_govdesi H M s =
     (case s of
        Inl e \<Rightarrow> Inl e
      | Inr (mevcut_tarih, tahmin_sonuclari) \<Rightarrow>
          (let tahmin_sonuclari' =
                 (if \<not> resmi_tatil_mi H mevcut_tarih
                  then tahmin_sonuclari @ [gun_tahmini M mevcut_tarih]
                  else tahmin_sonuclari)
           in case gun_ekle mevcut_tarih of
                Inl e \<Rightarrow> Inl e
              | Inr sonraki \<Rightarrow> Inr (sonraki, tahmin_sonuclari')))"

text \<open>Lines 50 and 55--98: start from the first date and an empty list, return the list.\<close>

definition while_dongu :: "tatil_takvimi \<Rightarrow> modeller \<Rightarrow> tarih \<Rightarrow> tarih \<Rightarrow> gunluk_tahmin list sonuc option" where
  "while_dongu H M baslangic bitis =
     map_option (map_sum id snd)
       (while_option (dongu_kosulu bitis) (dongu_govdesi H M) (Inr (baslangic, [])))"

section \<open>The loop stops and agrees with the recursion\<close>

lemma while_dongu_adim:
  "map_option (map_sum id snd) (while_option (dongu_kosulu e) (dongu_govdesi H M) (Inr (c, acc))) =
   Some (tahmin_dongu H M c e acc)"
proof (induction H M c e acc rule: tahmin_dongu.induct)
  case (1 H M c e acc)
  let ?acc' = "if \<not> resmi_tatil_mi H c then acc @ [gun_tahmini M c] else acc"
  show ?case
  proof (cases "c \<le> e")
    case False
    then show ?thesis
      by (simp add: while_option_unfold [of _ _ "Inr (c, acc)"] dongu_kosulu_def
          tahmin_dongu.simps [of H M c e acc])
  next
    case True
    show ?thesis
    proof (cases "gun_ekle c")
      case (Inl err)
      with True show ?thesis
        by (simp add: while_option_unfold [of _ _ "Inr (c, acc)"] while_option_unfold [of _ _ "Inl err"]
            dongu_kosulu_def dongu_govdesi_def tahmin_dongu.simps [of H M c e acc] Let_def)
    next
      case (Inr n)
      have "dongu_govdesi H M (Inr (c, acc)) = Inr (n, ?acc')"
        using Inr by (simp add: dongu_govdesi_def Let_def)
      with True Inr "1.IH" [OF True refl Inr] show ?thesis
        by (simp add: while_option_unfold [of _ _ "Inr (c, acc)"] dongu_kosulu_def
            tahmin_dongu.simps [of H M c e acc] Let_def)
    qed
  qed
qed


text \<open>
  C21. The \<open>while\<close> loop of \<open>tahmin_et\<close>, run literally from any start date to any end
  date, stops (\<open>while_option\<close> returns \<open>Some\<close>) and its result, a list of records or
  the exception that ended it, is the result of \<open>tahmin_dongu\<close>.
\<close>

theorem while_dongu_durur:
  "while_dongu H M baslangic bitis = Some (tahmin_dongu H M baslangic bitis [])"
  unfolding while_dongu_def by (rule while_dongu_adim)


section \<open>The number of passes\<close>

text \<open>
  From a valid start date, the first passes keep the loop on valid dates whose ordinals
  count up by one (\<open>dongu_iterasyonu\<close>); the state after one pass per day of the range
  fails the guard, because it holds the day after the end date or the OverflowError of
  9999-12-31 (\<open>dongu_son_tur\<close>). A reversed range fails the guard at once.
\<close>

lemma dongu_iterasyonu:
  assumes "gecerli s" "gecerli e" "int k < ymd2ord e - ymd2ord s + 1"
  shows "\<exists>c acc. (dongu_govdesi H M ^^ k) (Inr (s, bas_acc)) = Inr (c, acc) \<and> gecerli c \<and>
           ymd2ord c = ymd2ord s + int k"
  using assms(3)
proof (induction k)
  case 0
  then show ?case using assms(1) by simp
next
  case (Suc k)
  then obtain c acc where c: "(dongu_govdesi H M ^^ k) (Inr (s, bas_acc)) = Inr (c, acc)" "gecerli c"
      "ymd2ord c = ymd2ord s + int k" by auto
  have "ymd2ord c < ymd2ord e" using c(3) Suc.prems by simp
  then have "c < e" using ymd2ord_le_iff [OF assms(2) c(2)] by (simp add: not_le [symmetric])
  then have cmax: "c \<noteq> Tarih 9999 12 31" using gecerli_le_max [OF assms(2)] by auto
  have "gun_ekle c = Inr (sonraki_gun c)" using gun_ekle_gecerli [OF c(2)] cmax by simp
  then obtain acc' where "dongu_govdesi H M (Inr (c, acc)) = Inr (sonraki_gun c, acc')"
    by (simp add: dongu_govdesi_def Let_def)
  moreover have "(dongu_govdesi H M ^^ Suc k) (Inr (s, bas_acc)) = dongu_govdesi H M (Inr (c, acc))"
    using c(1) by simp
  ultimately show ?case
    using c ymd2ord_sonraki_gun [OF c(2)] gecerli_sonraki_gun_max [OF c(2) cmax] by simp
qed

lemma dongu_son_tur:
  assumes "gecerli s" "gecerli e"
  shows "\<not> dongu_kosulu e ((dongu_govdesi H M ^^ nat (ymd2ord e - ymd2ord s + 1)) (Inr (s, [])))"
proof (cases "ymd2ord e < ymd2ord s")
  case True
  then have "\<not> s \<le> e" using ymd2ord_le_iff [OF assms] by simp
  then show ?thesis using True by (simp add: dongu_kosulu_def)
next
  case False
  then obtain m where m: "nat (ymd2ord e - ymd2ord s + 1) = Suc m" "int m = ymd2ord e - ymd2ord s"
    by (intro that [of "nat (ymd2ord e - ymd2ord s)"]) auto
  then obtain c acc where c: "(dongu_govdesi H M ^^ m) (Inr (s, [])) = Inr (c, acc)" "gecerli c"
      "ymd2ord c = ymd2ord s + int m"
    using dongu_iterasyonu [OF assms, where k = m and bas_acc = "[]" and H = H and M = M] m(2) by auto
  then have ce: "c = e" using ymd2ord_inj [OF c(2) assms(2)] m(2) by simp
  have adim: "(dongu_govdesi H M ^^ nat (ymd2ord e - ymd2ord s + 1)) (Inr (s, [])) =
      dongu_govdesi H M (Inr (e, acc))"
    using c(1) ce m(1) by simp
  show ?thesis
  proof (cases "e = Tarih 9999 12 31")
    case True
    then show ?thesis using adim gun_ekle_gecerli [OF assms(2)]
      by (simp add: dongu_govdesi_def dongu_kosulu_def Let_def)
  next
    case False
    then have "gun_ekle e = Inr (sonraki_gun e)" using gun_ekle_gecerli [OF assms(2)] by simp
    moreover have "\<not> sonraki_gun e \<le> e" using sonraki_gun_greater [of e] by simp
    ultimately show ?thesis using adim by (simp add: dongu_govdesi_def dongu_kosulu_def Let_def)
  qed
qed

text \<open>
  C22. For a valid start and end date, the \<open>while\<close> loop of \<open>tahmin_et\<close> passes through
  its body exactly once per calendar day of the range, \<open>ymd2ord bitis - ymd2ord baslangic + 1\<close>
  times (none for a reversed range): the guard holds before each of those passes, and the
  loop's result is the state after the last of them.
\<close>

theorem dongu_tur_sayisi:
  assumes "gecerli s" "gecerli e"
  shows "(\<forall>k < nat (ymd2ord e - ymd2ord s + 1).
            dongu_kosulu e ((dongu_govdesi H M ^^ k) (Inr (s, [])))) \<and>
         while_option (dongu_kosulu e) (dongu_govdesi H M) (Inr (s, [])) =
           Some ((dongu_govdesi H M ^^ nat (ymd2ord e - ymd2ord s + 1)) (Inr (s, [])))"
proof -
  let ?N = "nat (ymd2ord e - ymd2ord s + 1)"
  let ?x = "\<lambda>k. (dongu_govdesi H M ^^ k) (Inr (s, []))"
  have ic: "\<forall>k < ?N. dongu_kosulu e (?x k)"
  proof (intro allI impI)
    fix k assume "k < ?N"
    then have "int k \<le> ymd2ord e - ymd2ord s" by linarith
    then obtain c acc where c: "?x k = Inr (c, acc)" "gecerli c" "ymd2ord c = ymd2ord s + int k"
      using dongu_iterasyonu [OF assms, where k = k and bas_acc = "[]" and H = H and M = M] by auto
    then have "c \<le> e" using ymd2ord_le_iff [OF c(2) assms(2)] \<open>k < ?N\<close> by simp
    then show "dongu_kosulu e (?x k)" using c(1) by (simp add: dongu_kosulu_def)
  qed
  have son: "\<not> dongu_kosulu e (?x ?N)" by (rule dongu_son_tur [OF assms])
  have "(LEAST k. \<not> dongu_kosulu e (?x k)) = ?N"
    by (rule Least_equality) (use son ic in \<open>auto simp: not_less [symmetric]\<close>)
  with son ic show ?thesis unfolding while_option_def by auto
qed

theorem dongu_tur_sayisi_witness:
  "nat (ymd2ord (Tarih 2024 3 18) - ymd2ord (Tarih 2024 3 15) + 1) = 4 \<and>
   while_option (dongu_kosulu (Tarih 2024 3 18)) (dongu_govdesi (\<lambda>_. []) senaryo_modelleri)
     (Inr (Tarih 2024 3 15, [])) =
   Some ((dongu_govdesi (\<lambda>_. []) senaryo_modelleri ^^ 4) (Inr (Tarih 2024 3 15, [])))"
proof -
  have v: "gecerli (Tarih 2024 3 15)" "gecerli (Tarih 2024 3 18)" by (simp_all add: eval_simps)
  have n: "nat (ymd2ord (Tarih 2024 3 18) - ymd2ord (Tarih 2024 3 15) + 1) = 4"
    by (simp add: eval_simps)
  show ?thesis
    using dongu_tur_sayisi [OF v, of "\<lambda>_. []" senaryo_modelleri] n by simp
qed

end
