(* ===== verification/Spec2Isabelle.thy ===== *)
theory Spec2Isabelle
  imports Aktarim Dongu
begin

text \<open>
  \<^bold>\<open>A verification model of Pace, an exam-session attendance forecaster.\<close>

  The program (\<open>src/app.py\<close>, one Flask module) forecasts, for every business day of a
  requested date range, how many candidates to invite so that the expected attendance
  approaches 90\% of a room of 45 without exceeding it. Its parts, leaf first:
  \<^item> calendar features and the holiday test (\<open>resmi_tatil_mi\<close>, lines 43--45, and the
    \<open>datetime\<close> arithmetic it and \<open>tahmin_et\<close> use);
  \<^item> dataset preparation (\<open>load_and_prepare_data\<close>, lines 14--25);
  \<^item> training of four random-forest regressors, one per funnel stage
    (\<open>egit_modeller\<close>, lines 27--41);
  \<^item> the capacity-constrained optimiser, the body of the loop of \<open>tahmin_et\<close>
    (lines 57--94);
  \<^item> the forecast sequence generator \<open>tahmin_et\<close> (lines 47--98), which walks the range
    one day at a time, skips weekends and holidays and runs the optimiser on the others;
  \<^item> presentation: chart data (\<open>grafik_uret\<close>, lines 102--140), the page handler
    \<open>index\<close> and the download handler \<open>indir\<close> (lines 142--174), which share the
    global \<open>son_tahminler\<close>.

  \<^bold>\<open>Theories.\<close>
  \<^item> \<open>Prelude\<close>: Python's exceptions as the datatype \<open>hata\<close> (errors are \<open>Inl\<close>
    values of \<open>hata + 'a\<close>), Python's \<open>round\<close> (half to even) as \<open>py_round\<close>, and
    facts on \<open>arg_min_list\<close>, the first minimal element of a list.
  \<^item> \<open>Calendar\<close>: dates as the datatype \<open>tarih\<close> with Python's field-by-field order
    (a \<open>linorder\<close> instance), CPython's \<open>_ymd2ord\<close>, \<open>weekday\<close>, \<open>isocalendar\<close>,
    \<open>date + timedelta(days=1)\<close> (\<open>gun_ekle\<close>, OverflowError past 9999-12-31) and
    \<open>resmi_tatil_mi\<close>, with the holiday calendar a parameter (a list of holidays per
    year). Lemmas: the successor lands on the next ordinal, the order of dates is the
    order of ordinals, no valid date lies between a date and its successor, the ISO week
    of a valid date lies in 1--53 (ISO week 1 starts within three days of 1 January), and on
    valid dates the order of dates is the order of ordinals.
  \<^item> \<open>Strptime\<close>: CPython's \<open>_strptime\<close> for the directives \<open>%Y %m %d\<close> (the
    regular expressions of \<open>TimeRE\<close>, first match in backtracking order, leftover
    characters and invalid dates as \<open>ValueError\<close>) and \<open>strftime\<close> for
    \<open>%Y-%m-%d\<close> and \<open>%A\<close>; \<open>str()\<close> of an integer. Lemmas: the round trips
    \<open>strptime("%Y-%m-%d")\<close> after \<open>strftime\<close> and \<open>%d%m%Y\<close> on zero-padded fields,
    built from one lemma per directive (the padded field is the first alternative that
    matches) and the digit lemmas of \<open>ondalik\<close>, and the parse of a seven-digit integer
    string by \<open>%d%m%Y\<close>. Digits are ASCII digits (Python's \<open>\d\<close> also accepts
    other Unicode decimal digits; such inputs are outside the model).
  \<^item> \<open>Optimizer\<close>: the feature row, the four models as a record of functions, the scan
    over \<open>range(20, 150)\<close> as a left fold of \<open>aday_adimi\<close> over a record of the three
    loop variables, the forecast record of one day, and the abstract specification of
    the choice (\<open>secim_spec\<close>, the first admissible candidate of minimal distance).
    Lemmas: the fold implements the specification (C1), optimality and tie-breaking
    (C2), the capacity ceiling (C3), the silent fallback to 20 when nothing is admissible
    (C4), the zero-baseline case (C5), and non-negative counts with the attendance rounded
    within one half (C19).
  \<^item> \<open>Forecast\<close>: \<open>tahmin_et\<close>'s loop as \<open>tahmin_dongu\<close>, a recursion over the
    current date with the accumulated list as a parameter (the Python list
    \<open>tahmin_sonuclari\<close>), terminating by a lexicographic measure on year, month and
    day; \<open>tahmin_et\<close> parses the two range ends first. Lemmas: the output is exactly
    the optimiser records of the business days of the range in increasing order (C6),
    a reversed range gives an empty list and no error (C7), an end date of 9999-12-31
    raises OverflowError (C8).
  \<^item> \<open>Dataset\<close>: \<open>load_and_prepare_data\<close> on the data frame \<open>read_csv\<close> returns, with
    the date cell typed as pandas types the column (integer, float with \<open>NaN\<close>, or
    string), \<open>astype(str)\<close>, \<open>pd.to_datetime(format="%d%m%Y", errors='coerce')\<close>
    with the nanosecond \<open>Timestamp\<close> range (\<open>ns_araliginda\<close>, 1677-09-22 to
    2262-04-11), the features, and the holiday object of \<open>holidays.Turkey\<close> with its
    \<open>expand\<close> flag; \<open>egit_modeller\<close> with the forest a training-function parameter.
    The count columns are integers (a missing count, a float column with \<open>NaN\<close>, is
    not represented). Lemmas: the features' ranges and the holiday flag (C10), training
    and forecasting see the same feature vector for a business day (C11), the kept rows in
    input order (C12), the \<open>ddmmyyyy\<close> round trip (C13), the misparse of every
    integer-typed date \<open>0d0myyyy\<close> as day \<open>10 * d\<close> (C14), and the loss of every row when
    a date is missing (C15).
  \<^item> \<open>Uygulama\<close>: the chart series of \<open>grafik_uret\<close>, whose \<open>pd.to_datetime\<close>
    (line 108) is \<open>pd_to_datetime_Ymd\<close>: \<open>strptime\<close> followed by the \<open>Timestamp\<close>
    range check, \<open>OutOfBoundsDatetime\<close> outside it; and \<open>index\<close>/\<open>indir\<close> as a
    function \<open>istek_isle\<close> from a state (the global \<open>son_tahminler\<close>) and a request
    to a response and a state, the reachable states as the inductive \<open>ulasilir\<close>, and
    request sequences as \<open>calistir\<close>. The form of a \<open>POST\<close> is a dictionary; a missing
    \<open>start_date\<close> or \<open>end_date\<close> is a 400 before any work. Lemmas: for a range inside
    the \<open>Timestamp\<close> range the chart is drawn and keeps the forecast order (C16), every
    download in a reachable state is a completed non-empty forecast (C17, by rule
    induction), the global after any request sequence is the last rendered forecast
    (C18), progress: one \<open>POST\<close> of a business day in the \<open>Timestamp\<close> range always
    makes it downloadable (C20), the utilisation chart stays under its full-capacity line
    when every business day admits a candidate (C23), two bar labels are equal exactly
    when the dates share day and month (C24), and a business day past 2262-04-11 in the
    range is forecast but answered with a 500 (C25).
  \<^item> \<open>Dongu\<close>: the same loop written as the Python \<open>while\<close> statement, with
    \<open>while_option\<close> of \<open>HOL-Library.While_Combinator\<close> over the two loop variables
    (an exception is a state on which the guard is false). Lemma: the loop stops on every
    input and computes what \<open>tahmin_dongu\<close> computes (C21), so the properties of
    \<open>tahmin_dongu\<close> are properties of the loop as written; for valid dates the body runs
    exactly once per calendar day of the range (C22, by induction on the iterates
    \<open>dongu_govdesi ^^ k\<close>).
  \<^item> \<open>Aktarim\<close>: the sheet of the Excel export (header of the record keys, one row per
    record, sheet \<open>Tahminler\<close>, file \<open>tahminler.xlsx\<close>). No property is stated of it:
    the program has no reader of the sheet, so a round trip would be about a reader of
    this development, not about the program.
  \<^item> This theory: C9, every returned record is the optimiser's record of a business
    day with an invitation count in \<open>[20, 150)\<close>.

  \<^bold>\<open>Modelling choices.\<close> Floats are reals: rounding errors of the float arithmetic
  are not modelled (the decisions of the witnesses compare values far apart). The
  regressors are arbitrary functions and the trainer a parameter: the properties hold for
  every model, which is what the code guarantees without knowing the training. The
  holiday calendar of the \<open>holidays\<close> package is a parameter. No fuel is needed: every
  loop of the program is bounded (130 candidates; the date loop by the end date; the
  regular expressions by the input) and is a terminating HOL function.
  \<open>strftime("%Y")\<close> pads the year to four digits (current CPython). A float cell of
  the date column holds an integral value below \<open>10^16\<close>, so \<open>str()\<close> prints it with
  a \<open>.0\<close> suffix.

  \<^bold>\<open>Not modelled.\<close> Reading the CSV file (I/O; the model starts from the typed data
  frame), the random forest (a library; a parameter), HTML rendering, drawing the PNG
  charts and their base64 text (only the plotted series are modelled), and the xlsx
  container of the Excel export (zip and XML written by \<open>xlsxwriter\<close>; the sheet's
  cells are modelled).
\<close>

section \<open>Properties across components\<close>

text \<open>
  C9. Every record that \<open>tahmin_et\<close> returns is the optimiser's record of some business
  day: it carries that day's \<open>%Y-%m-%d\<close> string, the day is neither a weekend day nor
  a holiday, and its invitation count lies in \<open>range(20, 150)\<close>. This holds for any
  input strings, holidays and models.
\<close>

theorem tahmin_et_kayitlari:
  assumes "tahmin_et H M baslangic bitis tolerans_aktif = Inr ts" and "r \<in> set ts"
  shows "\<exists>d. r = gun_tahmini M d \<and> \<not> resmi_tatil_mi H d \<and> t_tarih r = tarih_yaz d \<and>
             20 \<le> t_davet r \<and> t_davet r < 150"
proof -
  obtain b e where "tahmin_dongu H M b e [] = Inr ts"
    using assms(1) by (auto simp: tahmin_et_def split: sum.splits)
  then obtain d where "r = gun_tahmini M d" "\<not> resmi_tatil_mi H d"
    using tahmin_dongu_kayitlar assms(2) by fastforce
  then show ?thesis
    using gun_tahmini_davet_araligi [of M d] by (auto simp: gun_tahmini_def Let_def)
qed

theorem tahmin_et_kayitlari_witness:
  "t_davet (gun_tahmini senaryo_modelleri (Tarih 2024 3 15)) = 48 \<and>
   20 \<le> t_davet (gun_tahmini senaryo_modelleri (Tarih 2024 3 15))"
proof -
  have "\<exists>d. gun_tahmini senaryo_modelleri (Tarih 2024 3 15) = gun_tahmini senaryo_modelleri d \<and>
      \<not> resmi_tatil_mi (\<lambda>_. []) d \<and>
      t_tarih (gun_tahmini senaryo_modelleri (Tarih 2024 3 15)) = tarih_yaz d \<and>
      20 \<le> t_davet (gun_tahmini senaryo_modelleri (Tarih 2024 3 15)) \<and>
      t_davet (gun_tahmini senaryo_modelleri (Tarih 2024 3 15)) < 150"
    using tahmin_et_kayitlari [OF tek_gun_ornegi] by simp
  moreover have "t_davet (gun_tahmini senaryo_modelleri (Tarih 2024 3 15)) = 48"
    by (simp add: gun_tahmini_def Let_def en_iyi_arama_eq senaryo_secim kabul_edilen_def
        senaryo_modelleri_def eval_simps)
  ultimately show ?thesis by blast
qed

end
